theory Spec2Isabelle
  imports Main "HOL-Library.Sublist"
begin

section \<open>Strings\<close>

text \<open>
  A JavaScript string is modelled by the list of bytes of its UTF-8 encoding
  (\<^typ>\<open>string\<close>). Every delimiter the code looks for is an ASCII character, and no ASCII
  byte occurs inside a multi-byte UTF-8 sequence, so splitting, prefix tests and
  concatenation agree with the source on this representation.

  A value that may be \<open>null\<close> or \<open>undefined\<close> is an \<open>option\<close>. The source tests such
  values by truthiness: \<open>null\<close>, \<open>undefined\<close> and the empty string are falsy.
\<close>

definition truthy :: "string option \<Rightarrow> bool" where
  "truthy v = (case v of None \<Rightarrow> False | Some s \<Rightarrow> s \<noteq> [])"

text \<open>Interpolation \<open>${v}\<close> in a template literal: \<open>null\<close> is rendered as the word null.\<close>

definition interp :: "string option \<Rightarrow> string" where
  "interp v = (case v of None \<Rightarrow> ''null'' | Some s \<Rightarrow> s)"

text \<open>\<open>String.prototype.startsWith\<close>.\<close>

definition startsWith :: "string \<Rightarrow> string \<Rightarrow> bool" where
  "startsWith s p = (take (length p) s = p)"

text \<open>
  \<open>String.prototype.toLowerCase\<close> on the ASCII letters. Header names are ASCII
  (RFC 5322), bytes outside \<open>A..Z\<close> are left alone.
\<close>

definition lower_char :: "char \<Rightarrow> char" where
  "lower_char c =
     (if 65 \<le> (of_char c :: nat) \<and> (of_char c :: nat) \<le> 90
      then char_of ((of_char c :: nat) + 32) else c)"

definition toLowerCase :: "string \<Rightarrow> string" where
  "toLowerCase s = map lower_char s"

text \<open>\<open>s.split('\n')\<close>: the pieces between line feeds; the empty string gives one empty piece.\<close>

fun split_on :: "char \<Rightarrow> string \<Rightarrow> string list" where
  "split_on d [] = [[]]"
| "split_on d (c # cs) =
     (if c = d then [] # split_on d cs
      else (case split_on d cs of
              [] \<Rightarrow> [[c]]
            | l # ls \<Rightarrow> (c # l) # ls))"

text \<open>\<open>Array.prototype.join\<close>.\<close>

fun join :: "string \<Rightarrow> string list \<Rightarrow> string" where
  "join sep [] = []"
| "join sep [x] = x"
| "join sep (x # y # ys) = x @ sep @ join sep (y # ys)"

abbreviation LF :: char where
  "LF \<equiv> CHR 0x0A"

section \<open>Errors\<close>

text \<open>
  The source throws \<open>Error\<close> objects told apart by their message; each message template
  is one constructor, carrying the values interpolated into it.
  \<^item> \<open>ConfigError m\<close>: the configuration or the OAuth credentials file cannot be loaded
  \<^item> \<open>NotAuthenticated\<close>: Not authenticated. Please run: gmail auth login
  \<^item> \<open>TokenRefreshError\<close>: Token expired and refresh failed. Please run: gmail auth login
  \<^item> \<open>LabelNotFound q names\<close>: Label "q" not found, Available labels: names joined by a comma
  \<^item> \<open>AttachmentNotFound p\<close>: File not found: p
  \<^item> \<open>AttachmentTooLarge p n\<close>: File too large: p (n bytes)
  \<^item> \<open>MessageTooLarge n\<close>: Message size exceeds Gmail limit (35MB) (n bytes in total)
  \<^item> \<open>MissingMessageId\<close>: Original message does not have a Message-ID header
  \<^item> \<open>TypeError\<close>: a property read on \<open>undefined\<close>
  \<^item> \<open>Upstream m\<close>: a failure of an external collaborator, passed on as it is
\<close>

datatype error =
    ConfigError string
  | NotAuthenticated
  | TokenRefreshError
  | LabelNotFound string "string list"
  | AttachmentNotFound string
  | AttachmentTooLarge string nat
  | MessageTooLarge nat
  | MissingMessageId
  | TypeError
  | Upstream string

section \<open>Message codec (gmail.js)\<close>

record header =
  hname :: string
  hvalue :: string

text \<open>
  A message part: its headers, media type, body (absent, or with optional inline data)
  and child parts (absent, or a list).
\<close>

datatype part =
  Part (headers: "header list") (mimeType: string)
       (body: "string option option") (parts: "part list option")

record message =
  threadId :: string
  payload :: part

text \<open>\<open>getHeader\<close>: first header of the top-level payload whose name matches, ignoring case.\<close>

definition getHeader :: "message \<Rightarrow> string \<Rightarrow> string option" where
  "getHeader m headerName =
     (case find (\<lambda>h. toLowerCase (hname h) = toLowerCase headerName) (headers (payload m)) of
        None \<Rightarrow> None
      | Some h \<Rightarrow> Some (hvalue h))"

subsection \<open>Base64 (the platform's Buffer codec)\<close>

text \<open>
  \<open>Buffer.prototype.toString('base64')\<close>: three bytes give four characters of the standard
  alphabet; a final group of one or two bytes is padded with \<open>=\<close>.
\<close>

definition b64_char :: "nat \<Rightarrow> char" where
  "b64_char i =
     (if i < 26 then char_of (65 + i)
      else if i < 52 then char_of (71 + i)
      else if i < 62 then char_of (i - 4)
      else if i = 62 then CHR ''+'' else CHR ''/'')"

fun base64_encode :: "string \<Rightarrow> string" where
  "base64_encode [] = []"
| "base64_encode [a] =
     (let x = (of_char a :: nat) in
      [b64_char (x div 4), b64_char ((x mod 4) * 16), CHR ''='', CHR ''=''])"
| "base64_encode [a, b] =
     (let x = (of_char a :: nat); y = (of_char b :: nat) in
      [b64_char (x div 4), b64_char ((x mod 4) * 16 + y div 16),
       b64_char ((y mod 16) * 4), CHR ''=''])"
| "base64_encode (a # b # c # rest) =
     (let x = (of_char a :: nat); y = (of_char b :: nat); z = (of_char c :: nat) in
      [b64_char (x div 4), b64_char ((x mod 4) * 16 + y div 16),
       b64_char ((y mod 16) * 4 + z div 64), b64_char (z mod 64)]) @ base64_encode rest"

text \<open>
  \<open>Buffer.from(s, 'base64')\<close> is lenient: it reads both the standard and the URL-safe
  alphabet, skips every other character, stops at the first \<open>=\<close> and needs no padding
  (two leftover characters give one byte, three give two, one gives none). The codes
  43, 45, 47 and 95 are the characters \<open>+\<close>, \<open>-\<close>, \<open>/\<close> and \<open>_\<close>.
\<close>

definition unbase64 :: "char \<Rightarrow> nat option" where
  "unbase64 c =
     (let n = (of_char c :: nat) in
      if 65 \<le> n \<and> n \<le> 90 then Some (n - 65)
      else if 97 \<le> n \<and> n \<le> 122 then Some (n - 71)
      else if 48 \<le> n \<and> n \<le> 57 then Some (n + 4)
      else if n = 43 \<or> n = 45 then Some 62
      else if n = 47 \<or> n = 95 then Some 63
      else None)"

fun decode_sextets :: "nat list \<Rightarrow> string" where
  "decode_sextets (s1 # s2 # s3 # s4 # rest) =
     [char_of (s1 * 4 + s2 div 16), char_of ((s2 mod 16) * 16 + s3 div 4),
      char_of ((s3 mod 4) * 64 + s4)] @ decode_sextets rest"
| "decode_sextets [s1, s2, s3] =
     [char_of (s1 * 4 + s2 div 16), char_of ((s2 mod 16) * 16 + s3 div 4)]"
| "decode_sextets [s1, s2] = [char_of (s1 * 4 + s2 div 16)]"
| "decode_sextets [s1] = []"
| "decode_sextets [] = []"

definition base64_decode :: "string \<Rightarrow> string" where
  "base64_decode s =
     decode_sextets (List.map_filter unbase64 (takeWhile (\<lambda>c. c \<noteq> CHR ''='') s))"

text \<open>\<open>s.replace(/x/g, y)\<close> for single characters.\<close>

definition replace_char :: "char \<Rightarrow> char \<Rightarrow> string \<Rightarrow> string" where
  "replace_char x y s = map (\<lambda>c. if c = x then y else c) s"

text \<open>\<open>s.replace(/=+$/, '')\<close>: the run of \<open>=\<close> at the end of the string is removed.\<close>

definition strip_padding :: "string \<Rightarrow> string" where
  "strip_padding s = rev (dropWhile (\<lambda>c. c = CHR ''='') (rev s))"

text \<open>
  \<open>decodeBase64Url\<close>. The bytes decoded are read as UTF-8 text, which on the byte
  representation of strings changes nothing (the replacement of malformed sequences
  by U+FFFD is outside the model).
\<close>

definition decodeBase64Url :: "string option \<Rightarrow> string" where
  "decodeBase64Url str =
     (case str of
        None \<Rightarrow> []
      | Some s \<Rightarrow>
          if s = [] then []
          else base64_decode (replace_char (CHR ''_'') (CHR ''/'') (replace_char (CHR ''-'') (CHR ''+'') s)))"

subsection \<open>Body extraction\<close>

text \<open>The result object; its fields \<open>text\<close> and \<open>html\<close> carry the names of the variables
  \<open>textBody\<close> and \<open>htmlBody\<close> they are read from.\<close>

record bodies =
  textBody :: string
  htmlBody :: string

text \<open>
  \<open>extractBody\<close>, the closure inside \<open>getMessageBody\<close>; the two variables it assigns are
  passed in and returned. Reading \<open>part.body.data\<close> when the part has no body throws;
  that read happens only once the media type has matched.
\<close>

fun extractBody :: "part \<Rightarrow> bodies \<Rightarrow> error + bodies"
  and forEach_extractBody :: "part list \<Rightarrow> bodies \<Rightarrow> error + bodies" where
  "extractBody (Part hs mt b ps) acc =
     (if (mt = ''text/plain'' \<or> mt = ''text/html'') \<and> b = None then Inl TypeError
      else
        let d = (case b of None \<Rightarrow> None | Some x \<Rightarrow> x);
            acc' = (if mt = ''text/plain'' \<and> truthy d then acc\<lparr>textBody := decodeBase64Url d\<rparr>
                    else if mt = ''text/html'' \<and> truthy d then acc\<lparr>htmlBody := decodeBase64Url d\<rparr>
                    else acc)
        in (case ps of None \<Rightarrow> Inr acc' | Some qs \<Rightarrow> forEach_extractBody qs acc'))"
| "forEach_extractBody [] acc = Inr acc"
| "forEach_extractBody (p # qs) acc =
     (case extractBody p acc of
        Inl e \<Rightarrow> Inl e
      | Inr acc' \<Rightarrow> forEach_extractBody qs acc')"

definition getMessageBody :: "message \<Rightarrow> error + bodies" where
  "getMessageBody m =
     (let p = payload m;
          acc0 = \<lparr>textBody = [], htmlBody = []\<rparr>;
          d = (case body p of None \<Rightarrow> None | Some x \<Rightarrow> x);
          acc1 = (if truthy d then
                    (if mimeType p = ''text/plain'' then acc0\<lparr>textBody := decodeBase64Url d\<rparr>
                     else if mimeType p = ''text/html'' then acc0\<lparr>htmlBody := decodeBase64Url d\<rparr>
                     else acc0)
                  else acc0)
      in (case parts p of None \<Rightarrow> Inr acc1 | Some ps \<Rightarrow> forEach_extractBody ps acc1))"

section \<open>Process state and external collaborators\<close>

text \<open>A label as the provider lists it; the fields \<open>id\<close>, \<open>name\<close> and \<open>type\<close> of the source.\<close>

record label =
  label_id :: string
  label_name :: string
  label_type :: string

record token =
  access_token :: "string option"
  refresh_token :: "string option"
  expiry_date :: "int option"
  scope :: "string option"

record app_credentials =
  client_id :: string
  client_secret :: string

text \<open>An \<open>OAuth2Client\<close>: the application it was built for and the credentials set on it.\<close>

record oauth_client =
  app :: app_credentials
  credentials :: "token option"

text \<open>
  A file is known by its size and by what \<open>JSON.parse\<close> makes of it as a token
  (\<open>None\<close>: the content does not parse to an object).
\<close>

record disk_file =
  fsize :: nat
  parsed :: "token option"

text \<open>
  The calls made to external collaborators, logged in the order they are issued. The log
  is not a variable of the source; it is kept so that the number of calls can be stated.
\<close>

datatype api_call =
    RefreshAccessToken
  | LabelsList
  | MessagesGet string
  | MessagesSend string "string option"
  | DraftsCreate string "string option"

text \<open>
  The state of a process run: the module variables \<open>currentProfile\<close>, \<open>gmailClient\<close> and
  \<open>labelCache\<close>, the home directory, the file system (its files, and which paths can be
  written or removed), the clock \<open>Date.now()\<close>, the lines written to the console and the
  log of external calls.
\<close>

record world =
  currentProfile :: string
  homedir :: string
  files :: "string \<rightharpoonup> disk_file"
  writable :: "string \<Rightarrow> bool"
  now :: int
  gmailClient :: "oauth_client option"
  labelCache :: "label list option"
  console :: "string list"
  calls :: "api_call list"

text \<open>
  What the provider answers to a send or a draft creation (\<open>id\<close> and \<open>threadId\<close> in the
  source), with the URL that is added for a draft.
\<close>

record api_response =
  resp_id :: string
  resp_threadId :: string
  gmailUrl :: "string option"

text \<open>The message configuration handed to the mail library.\<close>

record messageConfig =
  mc_from :: string
  mc_to :: "string option"
  mc_subject :: "string option"
  mc_headers :: "(string \<times> string) list"
  mc_cc :: "string option"
  mc_bcc :: "string option"
  mc_text :: "string option"
  mc_html :: "string option"
  mc_attachments :: "string list option"

text \<open>
  The collaborators outside the repository, each a function of what it is called with:
  the OAuth provider, the mail provider's API, the mail library that renders a message
  configuration as a raw RFC 822 message, and the length of the JSON text of a token.
  \<open>loadCredentials\<close> stands for the outcome of reading \<open>config.json\<close> and the OAuth
  credentials file of the profile named; these read-only inputs are not modelled further.
\<close>

record env =
  loadCredentials :: "string \<Rightarrow> error + app_credentials"
  refreshAccessToken :: "oauth_client \<Rightarrow> error + token"
  labels_list :: "oauth_client \<Rightarrow> error + label list option"
  messages_get :: "oauth_client \<Rightarrow> string \<Rightarrow> error + message"
  messages_send :: "oauth_client \<Rightarrow> string \<Rightarrow> string option \<Rightarrow> error + api_response"
  drafts_create :: "oauth_client \<Rightarrow> string \<Rightarrow> string option \<Rightarrow> error + api_response"
  sendMail :: "messageConfig \<Rightarrow> error + string"
  stringify_length :: "token \<Rightarrow> nat"

section \<open>Authentication (auth.js)\<close>

text \<open>\<open>path.join\<close> of plain segments.\<close>

definition getTokenFile :: "world \<Rightarrow> string" where
  "getTokenFile w = homedir w @ ''/.config/gmail/'' @ currentProfile w @ ''.token.json''"

definition createOAuth2Client :: "env \<Rightarrow> world \<Rightarrow> error + oauth_client" where
  "createOAuth2Client e w =
     (case loadCredentials e (currentProfile w) of
        Inl err \<Rightarrow> Inl err
      | Inr c \<Rightarrow> Inr \<lparr>app = c, credentials = None\<rparr>)"

definition loadToken :: "world \<Rightarrow> token option" where
  "loadToken w =
     (case files w (getTokenFile w) of
        None \<Rightarrow> None
      | Some f \<Rightarrow> parsed f)"

text \<open>\<open>saveToken\<close>: \<open>writeFileSync\<close> throws where the path cannot be written.\<close>

definition saveToken :: "env \<Rightarrow> token \<Rightarrow> world \<Rightarrow> error + world" where
  "saveToken e t w =
     (if writable w (getTokenFile w)
      then Inr (w\<lparr>files := (files w)(getTokenFile w \<mapsto>
                   \<lparr>fsize = stringify_length e t, parsed = Some t\<rparr>)\<rparr>)
      else Inl (Upstream ''EACCES''))"

text \<open>
  The test \<open>token.expiry_date && token.expiry_date < Date.now()\<close>: an absent expiry date
  and the number 0 are falsy.
\<close>

definition needs_refresh :: "token \<Rightarrow> int \<Rightarrow> bool" where
  "needs_refresh t n =
     (case expiry_date t of
        None \<Rightarrow> False
      | Some x \<Rightarrow> x \<noteq> 0 \<and> x < n)"

definition getAuthClient :: "env \<Rightarrow> world \<Rightarrow> (error + oauth_client) \<times> world" where
  "getAuthClient e w =
     (case createOAuth2Client e w of
        Inl err \<Rightarrow> (Inl err, w)
      | Inr oauth2Client \<Rightarrow>
          (case loadToken w of
             None \<Rightarrow> (Inl NotAuthenticated, w)
           | Some t \<Rightarrow>
               let c = oauth2Client\<lparr>credentials := Some t\<rparr> in
               if needs_refresh t (now w) then
                 (let w1 = w\<lparr>calls := calls w @ [RefreshAccessToken]\<rparr> in
                  case refreshAccessToken e c of
                    Inl err \<Rightarrow> (Inl TokenRefreshError, w1)
                  | Inr creds \<Rightarrow>
                      (case saveToken e creds w1 of
                         Inl err \<Rightarrow> (Inl TokenRefreshError, w1)
                       | Inr w2 \<Rightarrow> (Inr (c\<lparr>credentials := Some creds\<rparr>), w2)))
               else (Inr c, w)))"

text \<open>
  \<open>logout\<close>: \<open>unlinkSync\<close> throws where the file cannot be removed. The message of
  success starts with the check mark U+2713, in UTF-8 the bytes E2 9C 93.
\<close>

definition logout :: "world \<Rightarrow> (error + unit) \<times> world" where
  "logout w =
     (let tokenFile = getTokenFile w in
      if files w tokenFile \<noteq> None then
        (if writable w tokenFile
         then (Inr (), w\<lparr>files := (files w)(tokenFile := None),
                       console := console w
                         @ [[CHR 0xE2, CHR 0x9C, CHR 0x93] @ '' Logged out successfully'']\<rparr>)
         else (Inl (Upstream ''EACCES''), w))
      else (Inr (), w\<lparr>console := console w @ [''Not currently logged in'']\<rparr>))"

section \<open>API session and label resolver (gmail.js)\<close>

definition getGmailClient :: "env \<Rightarrow> world \<Rightarrow> (error + oauth_client) \<times> world" where
  "getGmailClient e w =
     (case gmailClient w of
        Some g \<Rightarrow> (Inr g, w)
      | None \<Rightarrow>
          (case getAuthClient e w of
             (Inl err, w1) \<Rightarrow> (Inl err, w1)
           | (Inr auth, w1) \<Rightarrow> (Inr auth, w1\<lparr>gmailClient := Some auth\<rparr>)))"

text \<open>\<open>getLabels\<close>: an array, even an empty one, is truthy, so only an unset cache is refilled.\<close>

definition getLabels :: "env \<Rightarrow> bool \<Rightarrow> world \<Rightarrow> (error + label list) \<times> world" where
  "getLabels e refresh w =
     (if labelCache w = None \<or> refresh then
        (case getGmailClient e w of
           (Inl err, w1) \<Rightarrow> (Inl err, w1)
         | (Inr gmail, w1) \<Rightarrow>
             let w2 = w1\<lparr>calls := calls w1 @ [LabelsList]\<rparr> in
             (case labels_list e gmail of
                Inl err \<Rightarrow> (Inl err, w2)
              | Inr response \<Rightarrow>
                  let ls = (case response of None \<Rightarrow> [] | Some l \<Rightarrow> l) in
                  (Inr ls, w2\<lparr>labelCache := Some ls\<rparr>)))
      else (Inr (case labelCache w of None \<Rightarrow> [] | Some ls \<Rightarrow> ls), w))"

definition getLabelIdByName :: "env \<Rightarrow> string \<Rightarrow> world \<Rightarrow> (error + string) \<times> world" where
  "getLabelIdByName e labelName w =
     (case getLabels e False w of
        (Inl err, w1) \<Rightarrow> (Inl err, w1)
      | (Inr labels, w1) \<Rightarrow>
          (case find (\<lambda>l. label_name l = labelName) labels of
             None \<Rightarrow> (Inl (LabelNotFound labelName (map label_name labels)), w1)
           | Some l \<Rightarrow> (Inr (label_id l), w1)))"

section \<open>MIME composer (email-sender.js)\<close>

text \<open>A \<open>cc\<close> or \<open>bcc\<close> value is an array of addresses or one string.\<close>

datatype addresses = AddrArray "string list" | AddrString string

text \<open>
  The options object of \<open>buildMimeMessage\<close>, and the one of \<open>sendEmail\<close> and \<open>replyToEmail\<close>,
  which has three more fields. The fields \<open>from\<close> and \<open>headers\<close> of the source are
  \<open>from_addr\<close> and \<open>opt_headers\<close> here.
\<close>

record mime_options =
  to :: "string option"
  from_addr :: "string option"
  subject :: "string option"
  bodyTxt :: "string option"
  bodyHtml :: "string option"
  cc :: "addresses option"
  bcc :: "addresses option"
  attachments :: "string list option"
  opt_headers :: "(string \<times> string) list option"

record options = mime_options +
  messageId :: string
  quote :: bool
  draft :: bool

definition MAX_MESSAGE_SIZE :: nat where
  "MAX_MESSAGE_SIZE = 35 * 1024 * 1024"

definition validateAttachment :: "world \<Rightarrow> string \<Rightarrow> error + nat" where
  "validateAttachment w filePath =
     (case files w filePath of
        None \<Rightarrow> Inl (AttachmentNotFound filePath)
      | Some stats \<Rightarrow>
          if fsize stats > MAX_MESSAGE_SIZE then Inl (AttachmentTooLarge filePath (fsize stats))
          else Inr (fsize stats))"

text \<open>
  The callback of \<open>attachments.map\<close>, run over the list from left to right with the
  variable \<open>totalSize\<close> it adds to; the first path that fails ends the run.
\<close>

fun validate_all :: "world \<Rightarrow> string list \<Rightarrow> nat \<Rightarrow> error + nat" where
  "validate_all w [] totalSize = Inr totalSize"
| "validate_all w (filePath # rest) totalSize =
     (case validateAttachment w filePath of
        Inl err \<Rightarrow> Inl err
      | Inr sz \<Rightarrow> validate_all w rest (totalSize + sz))"

definition addr_given :: "addresses option \<Rightarrow> bool" where
  "addr_given a =
     (case a of
        None \<Rightarrow> False
      | Some (AddrArray xs) \<Rightarrow> xs \<noteq> []
      | Some (AddrString x) \<Rightarrow> x \<noteq> [])"

definition addr_field :: "addresses option \<Rightarrow> string option" where
  "addr_field a =
     (if addr_given a then
        (case a of
           None \<Rightarrow> None
         | Some (AddrArray xs) \<Rightarrow> Some (join '', '' xs)
         | Some (AddrString x) \<Rightarrow> Some x)
      else None)"

text \<open>The first part of \<open>buildMimeMessage\<close>: the message configuration, attachments checked.\<close>

definition build_messageConfig :: "world \<Rightarrow> 'a mime_options_scheme \<Rightarrow> error + messageConfig" where
  "build_messageConfig w opts =
     (let cfg = \<lparr>mc_from = (case from_addr opts of None \<Rightarrow> ''me'' | Some f \<Rightarrow> f),
                 mc_to = to opts,
                 mc_subject = subject opts,
                 mc_headers = (case opt_headers opts of None \<Rightarrow> [] | Some h \<Rightarrow> h),
                 mc_cc = addr_field (cc opts),
                 mc_bcc = addr_field (bcc opts),
                 mc_text = (if truthy (bodyTxt opts) then bodyTxt opts else None),
                 mc_html = (if truthy (bodyHtml opts) then bodyHtml opts else None),
                 mc_attachments = None\<rparr>
      in (case attachments opts of
            None \<Rightarrow> Inr cfg
          | Some [] \<Rightarrow> Inr cfg
          | Some (a # as) \<Rightarrow>
              (case validate_all w (a # as) 0 of
                 Inl err \<Rightarrow> Inl err
               | Inr totalSize \<Rightarrow>
                   if totalSize > MAX_MESSAGE_SIZE then Inl (MessageTooLarge totalSize)
                   else Inr (cfg\<lparr>mc_attachments := Some (a # as)\<rparr>))))"

text \<open>The transport encoding: base64, then \<open>+\<close> to \<open>-\<close>, \<open>/\<close> to \<open>_\<close>, then the padding removed.\<close>

definition encodeMessage :: "string \<Rightarrow> string" where
  "encodeMessage rawMessage =
     strip_padding (replace_char (CHR ''/'') (CHR ''_'')
       (replace_char (CHR ''+'') (CHR ''-'') (base64_encode rawMessage)))"

definition buildMimeMessage :: "env \<Rightarrow> world \<Rightarrow> 'a mime_options_scheme \<Rightarrow> error + string" where
  "buildMimeMessage e w opts =
     (case build_messageConfig w opts of
        Inl err \<Rightarrow> Inl err
      | Inr messageConfig \<Rightarrow>
          (case sendMail e messageConfig of
             Inl err \<Rightarrow> Inl err
           | Inr rawMessage \<Rightarrow> Inr (encodeMessage rawMessage)))"

definition createDraft ::
  "env \<Rightarrow> oauth_client \<Rightarrow> string \<Rightarrow> string option \<Rightarrow> world \<Rightarrow> (error + api_response) \<times> world" where
  "createDraft e gmail encodedMessage thread w =
     (let t = (if truthy thread then thread else None) in
      (drafts_create e gmail encodedMessage t, w\<lparr>calls := calls w @ [DraftsCreate encodedMessage t]\<rparr>))"

definition getDraftGmailUrl :: "string \<Rightarrow> string" where
  "getDraftGmailUrl draftId = ''https://mail.google.com/mail/u/0/#drafts?compose='' @ draftId"

section \<open>Send and reply (email-sender.js)\<close>

text \<open>
  The progress spinner is presentation and is left out. \<open>deliver\<close> is the common end of
  \<open>sendEmail\<close> and \<open>replyToEmail\<close>: a draft (whose thread is attached only when truthy)
  with its URL, or a send.
\<close>

definition deliver ::
  "env \<Rightarrow> oauth_client \<Rightarrow> bool \<Rightarrow> string \<Rightarrow> string option \<Rightarrow> world \<Rightarrow> (error + api_response) \<times> world" where
  "deliver e gmail as_draft encodedMessage thread w =
     (if as_draft then
        (case createDraft e gmail encodedMessage thread w of
           (Inl err, w1) \<Rightarrow> (Inl err, w1)
         | (Inr draftData, w1) \<Rightarrow>
             (Inr (draftData\<lparr>gmailUrl := Some (getDraftGmailUrl (resp_id draftData))\<rparr>), w1))
      else
        (messages_send e gmail encodedMessage thread,
         w\<lparr>calls := calls w @ [MessagesSend encodedMessage thread]\<rparr>))"

definition sendEmail :: "env \<Rightarrow> options \<Rightarrow> world \<Rightarrow> (error + api_response) \<times> world" where
  "sendEmail e opts w =
     (case getGmailClient e w of
        (Inl err, w1) \<Rightarrow> (Inl err, w1)
      | (Inr gmail, w1) \<Rightarrow>
          (case buildMimeMessage e w1 opts of
             Inl err \<Rightarrow> (Inl err, w1)
           | Inr encodedMessage \<Rightarrow> deliver e gmail (draft opts) encodedMessage None w1))"

text \<open>
  The pattern \<open>/<(.+?)>/\<close> on the From header: the capture is the shortest run of at
  least one character, none of them a line terminator, between a \<open><\<close> and a later \<open>>\<close>,
  at the leftmost \<open><\<close> where such a run exists. The line terminators are LF, CR and
  U+2028, U+2029 (in UTF-8 the bytes E2 80 A8 and E2 80 A9).
\<close>

definition line_terminator_at :: "string \<Rightarrow> bool" where
  "line_terminator_at s =
     (take 1 s = [CHR 0x0A] \<or> take 1 s = [CHR 0x0D]
      \<or> take 3 s = [CHR 0xE2, CHR 0x80, CHR 0xA8] \<or> take 3 s = [CHR 0xE2, CHR 0x80, CHR 0xA9])"

fun lazy_dots :: "string \<Rightarrow> string \<Rightarrow> string option" where
  "lazy_dots acc [] = None"
| "lazy_dots acc (c # cs) =
     (if c = CHR ''>'' then Some acc
      else if line_terminator_at (c # cs) then None
      else lazy_dots (acc @ [c]) cs)"

definition capture_at :: "string \<Rightarrow> string option" where
  "capture_at s =
     (case s of
        [] \<Rightarrow> None
      | c # cs \<Rightarrow> if line_terminator_at s then None else lazy_dots [c] cs)"

fun match_angle :: "string \<Rightarrow> string option" where
  "match_angle [] = None"
| "match_angle (c # cs) =
     (if c = CHR ''<'' then
        (case capture_at cs of
           Some m \<Rightarrow> Some m
         | None \<Rightarrow> match_angle cs)
      else match_angle cs)"

definition reply_references :: "string option \<Rightarrow> string \<Rightarrow> string" where
  "reply_references originalReferences originalMessageId =
     (if truthy originalReferences then interp originalReferences @ '' '' @ originalMessageId
      else originalMessageId)"

definition reply_subject :: "string option \<Rightarrow> string" where
  "reply_subject originalSubject =
     (if (case originalSubject of None \<Rightarrow> False | Some s \<Rightarrow> startsWith s ''Re:'')
      then interp originalSubject
      else ''Re: '' @ (if truthy originalSubject then interp originalSubject else []))"

definition reply_to :: "string option \<Rightarrow> string option" where
  "reply_to originalFrom =
     (case originalFrom of
        None \<Rightarrow> None
      | Some f \<Rightarrow> (case match_angle f of Some m \<Rightarrow> Some m | None \<Rightarrow> Some f))"

definition quotedText :: "string \<Rightarrow> string" where
  "quotedText original = join [LF] (map (\<lambda>line. ''> '' @ line) (split_on LF original))"

definition quote_txt :: "message \<Rightarrow> string option \<Rightarrow> bodies \<Rightarrow> string option" where
  "quote_txt originalMessage b originalBody =
     (if truthy b \<and> textBody originalBody \<noteq> [] then
        Some (interp b @ [LF, LF] @ ''On '' @ interp (getHeader originalMessage ''Date'') @ '', ''
              @ interp (getHeader originalMessage ''From'') @ '' wrote:'' @ [LF]
              @ quotedText (textBody originalBody))
      else b)"

definition quote_html :: "string option \<Rightarrow> bodies \<Rightarrow> string option" where
  "quote_html b originalBody =
     (if truthy b \<and> htmlBody originalBody \<noteq> [] then
        Some (interp b @ ''<br><br><blockquote>'' @ htmlBody originalBody @ ''</blockquote>'')
      else b)"

text \<open>
  The middle of \<open>replyToEmail\<close>, from the fetched original to the object handed to
  \<open>buildMimeMessage\<close>.
\<close>

definition replyOptions :: "options \<Rightarrow> message \<Rightarrow> error + mime_options" where
  "replyOptions opts originalMessage =
     (let originalMessageId = getHeader originalMessage ''Message-ID'';
          originalReferences = getHeader originalMessage ''References'';
          originalSubject = getHeader originalMessage ''Subject'';
          originalFrom = getHeader originalMessage ''From''
      in if \<not> truthy originalMessageId then Inl MissingMessageId
         else
           (case (if quote opts
                  then (case getMessageBody originalMessage of
                          Inl err \<Rightarrow> Inl err
                        | Inr originalBody \<Rightarrow>
                            Inr (quote_txt originalMessage (bodyTxt opts) originalBody,
                                 quote_html (bodyHtml opts) originalBody))
                  else Inr (bodyTxt opts, bodyHtml opts)) of
              Inl err \<Rightarrow> Inl err
            | Inr (replyBodyTxt, replyBodyHtml) \<Rightarrow>
                Inr \<lparr>to = reply_to originalFrom,
                     from_addr = None,
                     subject = Some (reply_subject originalSubject),
                     bodyTxt = replyBodyTxt,
                     bodyHtml = replyBodyHtml,
                     cc = None,
                     bcc = None,
                     attachments = attachments opts,
                     opt_headers = Some [(''In-Reply-To'', interp originalMessageId),
                                         (''References'',
                                          reply_references originalReferences (interp originalMessageId))]\<rparr>))"

definition replyToEmail :: "env \<Rightarrow> options \<Rightarrow> world \<Rightarrow> (error + api_response) \<times> world" where
  "replyToEmail e opts w =
     (case getGmailClient e w of
        (Inl err, w1) \<Rightarrow> (Inl err, w1)
      | (Inr gmail, w1) \<Rightarrow>
          let w2 = w1\<lparr>calls := calls w1 @ [MessagesGet (messageId opts)]\<rparr> in
          (case messages_get e gmail (messageId opts) of
             Inl err \<Rightarrow> (Inl err, w2)
           | Inr originalMessage \<Rightarrow>
               (case replyOptions opts originalMessage of
                  Inl err \<Rightarrow> (Inl err, w2)
                | Inr reply \<Rightarrow>
                    (case buildMimeMessage e w2 reply of
                       Inl err \<Rightarrow> (Inl err, w2)
                     | Inr encodedMessage \<Rightarrow>
                         deliver e gmail (draft opts) encodedMessage
                           (Some (threadId originalMessage)) w2))))"

section \<open>Example states\<close>

definition example_token :: token where
  "example_token = \<lparr>access_token = Some ''ya29.old'', refresh_token = Some ''1//r'',
                     expiry_date = Some 500, scope = None\<rparr>"

definition example_world :: world where
  "example_world =
     \<lparr>currentProfile = ''default'', homedir = ''/home/u'', files = Map.empty,
      writable = (\<lambda>p. True), now = 1000, gmailClient = None, labelCache = None,
      console = [], calls = []\<rparr>"

definition logged_in :: "token \<Rightarrow> world" where
  "logged_in t =
     example_world\<lparr>files := [''/home/u/.config/gmail/default.token.json'' \<mapsto>
                                \<lparr>fsize = 120, parsed = Some t\<rparr>]\<rparr>"

definition fresh_token :: token where
  "fresh_token = \<lparr>access_token = Some ''ya29.new'', refresh_token = Some ''1//r'',
                   expiry_date = Some 4600, scope = None\<rparr>"


definition valid_token :: token where
  "valid_token = example_token\<lparr>expiry_date := Some 2000\<rparr>"

definition example_app :: app_credentials where
  "example_app = \<lparr>client_id = ''id'', client_secret = ''secret''\<rparr>"

text \<open>A stand-in for the mail library: recipient, subject and plain body on lines of their own.\<close>

definition example_render :: "messageConfig \<Rightarrow> string" where
  "example_render cfg =
     ''To: '' @ interp (mc_to cfg) @ [CHR 0x0D, CHR 0x0A]
     @ ''Subject: '' @ interp (mc_subject cfg) @ [CHR 0x0D, CHR 0x0A, CHR 0x0D, CHR 0x0A]
     @ interp (mc_text cfg)"

definition example_env :: env where
  "example_env =
     \<lparr>loadCredentials = (\<lambda>p. Inr \<lparr>client_id = ''id'', client_secret = ''secret''\<rparr>),
      refreshAccessToken = (\<lambda>c. Inr fresh_token),
      labels_list = (\<lambda>c. Inr None),
      messages_get = (\<lambda>c i. Inl (Upstream ''Not Found'')),
      messages_send = (\<lambda>c raw t. Inr \<lparr>resp_id = ''m1'', resp_threadId = ''t1'', gmailUrl = None\<rparr>),
      drafts_create = (\<lambda>c raw t. Inr \<lparr>resp_id = ''d1'', resp_threadId = ''t1'', gmailUrl = None\<rparr>),
      sendMail = (\<lambda>cfg. Inr (example_render cfg)),
      stringify_length = (\<lambda>t. 120)\<rparr>"


subsection \<open>Example messages and requests\<close>

definition hdr :: "string \<Rightarrow> string \<Rightarrow> header" where
  "hdr n v = \<lparr>hname = n, hvalue = v\<rparr>"

definition original_message :: "header list \<Rightarrow> message" where
  "original_message hs =
     \<lparr>threadId = ''t1'', payload = Part hs ''text/plain'' (Some (Some ''YQpi'')) None\<rparr>"

definition alternative_message :: "header list \<Rightarrow> message" where
  "alternative_message hs =
     \<lparr>threadId = ''t1'',
      payload = Part hs ''multipart/alternative'' (Some None)
        (Some [Part [] ''text/plain'' (Some (Some ''YQpi'')) None,
               Part [] ''text/html'' (Some (Some ''PHA-YTwvcD4'')) None])\<rparr>"

definition reply_request :: options where
  "reply_request =
     \<lparr>to = None, from_addr = None, subject = None, bodyTxt = Some ''Thanks'', bodyHtml = None,
      cc = None, bcc = None, attachments = None, opt_headers = None,
      messageId = ''m0'', quote = False, draft = False\<rparr>"

definition report_headers :: "string \<Rightarrow> header list" where
  "report_headers s =
     [hdr ''From'' ''Ann <ann@x>'', hdr ''Date'' ''Mon, 1 Jan 2024'',
      hdr ''Message-Id'' ''<abc@x>'', hdr ''Subject'' s]"

definition threaded_headers :: "header list" where
  "threaded_headers =
     [hdr ''From'' ''ann@x'', hdr ''References'' ''<a@x> <b@x>'', hdr ''Message-ID'' ''<abc@x>'']"

definition empty_id_headers :: "header list" where
  "empty_id_headers = [hdr ''From'' ''ann@x'', hdr ''Message-ID'' []]"

definition empty_references_headers :: "header list" where
  "empty_references_headers =
     [hdr ''From'' ''ann@x'', hdr ''References'' [], hdr ''Message-ID'' ''<abc@x>'']"

definition no_id_headers :: "header list" where
  "no_id_headers = [hdr ''From'' ''ann@x'', hdr ''Subject'' ''Report'']"

definition quoting_both :: options where
  "quoting_both = reply_request\<lparr>bodyHtml := Some ''<p>ok</p>'', quote := True\<rparr>"

definition quoting_plain_only :: options where
  "quoting_plain_only = reply_request\<lparr>quote := True\<rparr>"

definition quoting_html_only :: options where
  "quoting_html_only = reply_request\<lparr>bodyTxt := None, bodyHtml := Some ''<p>ok</p>'', quote := True\<rparr>"

definition serving :: "message \<Rightarrow> env" where
  "serving m = example_env\<lparr>messages_get := (\<lambda>c i. Inr m)\<rparr>"

definition example_client :: oauth_client where
  "example_client = \<lparr>app = example_app, credentials = Some valid_token\<rparr>"

subsection \<open>Example labels\<close>

definition mk_label :: "string \<Rightarrow> string \<Rightarrow> label" where
  "mk_label i n = \<lparr>label_id = i, label_name = n, label_type = ''user''\<rparr>"

definition example_labels :: "label list" where
  "example_labels = [mk_label ''Label_1'' ''work'', mk_label ''Label_2'' ''Work'',
                     mk_label ''Label_3'' ''Work'', mk_label ''Label_4'' ''Workshop'']"

definition labelled :: env where
  "labelled = example_env\<lparr>labels_list := (\<lambda>c. Inr (Some example_labels))\<rparr>"

definition cached_world :: world where
  "cached_world = example_world\<lparr>labelCache := Some example_labels\<rparr>"

subsection \<open>Attachments: the words of the specification, and example files\<close>

text \<open>A path passes the check of one file when the file exists and is not larger than the limit.\<close>

definition attachment_ok :: "world \<Rightarrow> string \<Rightarrow> bool" where
  "attachment_ok w p = (case files w p of None \<Rightarrow> False | Some f \<Rightarrow> fsize f \<le> MAX_MESSAGE_SIZE)"

text \<open>The sum of the sizes of the files named.\<close>

definition total_size :: "world \<Rightarrow> string list \<Rightarrow> nat" where
  "total_size w ps = sum_list (map (\<lambda>p. case files w p of None \<Rightarrow> 0 | Some f \<Rightarrow> fsize f) ps)"

definition sized :: "nat \<Rightarrow> disk_file" where
  "sized n = \<lparr>fsize = n, parsed = None\<rparr>"

definition disk :: world where
  "disk = example_world\<lparr>files :=
     [''/tmp/a.bin'' \<mapsto> sized 20971520, ''/tmp/b.bin'' \<mapsto> sized 20971520,
      ''/tmp/exact.bin'' \<mapsto> sized 36700160, ''/tmp/huge.bin'' \<mapsto> sized 36700161]\<rparr>"

definition send_request :: "string list \<Rightarrow> options" where
  "send_request ps =
     \<lparr>to = Some ''bob@x'', from_addr = None, subject = Some ''Report'',
      bodyTxt = Some ''See attached'', bodyHtml = None, cc = None, bcc = None,
      attachments = Some ps, opt_headers = None, messageId = [], quote = False, draft = False\<rparr>"

subsection \<open>Body extraction: the words of the specification, and example payloads\<close>

text \<open>The inline data of a part, and the two kinds of part that count.\<close>

definition data_of :: "part \<Rightarrow> string option" where
  "data_of p = (case body p of None \<Rightarrow> None | Some d \<Rightarrow> d)"

definition is_plain :: "part \<Rightarrow> bool" where
  "is_plain p = (mimeType p = ''text/plain'' \<and> truthy (data_of p))"

definition is_html :: "part \<Rightarrow> bool" where
  "is_html p = (mimeType p = ''text/html'' \<and> truthy (data_of p))"

text \<open>Depth-first order: a part, then its children from left to right, each with its own.\<close>

fun preorder :: "part \<Rightarrow> part list"
  and preorder_list :: "part list \<Rightarrow> part list" where
  "preorder (Part hs mt b ps) =
     Part hs mt b ps # (case ps of None \<Rightarrow> [] | Some qs \<Rightarrow> preorder_list qs)"
| "preorder_list [] = []"
| "preorder_list (p # qs) = preorder p @ preorder_list qs"

text \<open>The decoded data of the last part of a list that satisfies \<open>P\<close>, empty when there is none.\<close>

definition last_of :: "(part \<Rightarrow> bool) \<Rightarrow> part list \<Rightarrow> string" where
  "last_of P ps =
     (if filter P ps = [] then []
      else decodeBase64Url (data_of (last (filter P ps))))"

text \<open>A part of type text/plain or text/html has a body object (its data may be missing).\<close>

definition has_body_if_text :: "part \<Rightarrow> bool" where
  "has_body_if_text p =
     (mimeType p = ''text/plain'' \<or> mimeType p = ''text/html'' \<longrightarrow> body p \<noteq> None)"

text \<open>What examining one part does to the two accumulators.\<close>

definition visit :: "part \<Rightarrow> bodies \<Rightarrow> bodies" where
  "visit p acc =
     (if is_plain p then acc\<lparr>textBody := decodeBase64Url (data_of p)\<rparr>
      else if is_html p then acc\<lparr>htmlBody := decodeBase64Url (data_of p)\<rparr>
      else acc)"

definition nested_message :: message where
  "nested_message =
     \<lparr>threadId = ''t1'',
      payload = Part [] ''multipart/mixed'' (Some None)
        (Some [Part [] ''multipart/alternative'' None
                 (Some [Part [] ''text/plain'' (Some (Some ''Zmlyc3Q'')) None,
                        Part [] ''text/html'' (Some (Some ''PHA-YTwvcD4'')) None]),
               Part [] ''text/plain'' (Some (Some ''c2Vjb25k'')) None,
               Part [] ''text/plain'' (Some None) None,
               Part [] ''TEXT/PLAIN'' (Some (Some ''YQpi'')) None])\<rparr>"

definition bodiless_message :: message where
  "bodiless_message =
     \<lparr>threadId = ''t3'',
      payload = Part [] ''multipart/mixed'' (Some None)
        (Some [Part [] ''text/plain'' (Some (Some ''Zmlyc3Q'')) None,
               Part [] ''text/html'' None None])\<rparr>"

definition simple_message :: message where
  "simple_message =
     \<lparr>threadId = ''t2'', payload = Part [] ''text/html'' (Some (Some ''PGI-aGk8L2I-'')) None\<rparr>"

subsection \<open>Base64: the groups of six bits behind an encoding\<close>




section \<open>Verified properties: authentication\<close>

lemma getTokenFile_example:
  "getTokenFile example_world = ''/home/u/.config/gmail/default.token.json''"
  by (simp add: getTokenFile_def example_world_def)

lemma getTokenFile_logged_in:
  "getTokenFile (logged_in t) = ''/home/u/.config/gmail/default.token.json''"
  by (simp add: getTokenFile_def example_world_def logged_in_def)

text \<open>
  Claim C9. \<open>logout\<close> removes the token file of the active profile when it exists (and can
  be removed). When the file is absent, \<open>logout\<close> raises nothing, writes the line
  "Not currently logged in" and leaves every other component of the state, the file
  system included, as it was.
\<close>

theorem logout_effect:
  "(files w (getTokenFile w) = None \<longrightarrow>
      logout w = (Inr (), w\<lparr>console := console w @ [''Not currently logged in'']\<rparr>))
   \<and> (files w (getTokenFile w) \<noteq> None \<and> writable w (getTokenFile w) \<longrightarrow>
      fst (logout w) = Inr ()
      \<and> files (snd (logout w)) = (files w)(getTokenFile w := None))"
  by (simp add: logout_def Let_def)

theorem logout_effect_witness:
  "files example_world (getTokenFile example_world) = None
   \<and> fst (logout example_world) = Inr ()
   \<and> files (snd (logout example_world)) = files example_world
   \<and> console (snd (logout example_world)) = [''Not currently logged in'']
   \<and> files (logged_in example_token) (getTokenFile (logged_in example_token)) \<noteq> None
   \<and> writable (logged_in example_token) (getTokenFile (logged_in example_token))
   \<and> fst (logout (logged_in example_token)) = Inr ()
   \<and> files (snd (logout (logged_in example_token))) = Map.empty"
proof -
  have a: "files example_world (getTokenFile example_world) = None"
    by (simp add: example_world_def)
  have b: "files (logged_in example_token) (getTokenFile (logged_in example_token)) \<noteq> None"
    by (simp add: getTokenFile_logged_in) (simp add: logged_in_def)
  have c: "writable (logged_in example_token) (getTokenFile (logged_in example_token))"
    by (simp add: logged_in_def example_world_def)
  from a logout_effect [of example_world]
  have 1: "logout example_world =
      (Inr (), example_world\<lparr>console := console example_world @ [''Not currently logged in'']\<rparr>)"
    by blast
  from b c logout_effect [of "logged_in example_token"]
  have 2: "fst (logout (logged_in example_token)) = Inr ()
      \<and> files (snd (logout (logged_in example_token)))
          = (files (logged_in example_token))(getTokenFile (logged_in example_token) := None)"
    by blast
  have 3: "(files (logged_in example_token))(getTokenFile (logged_in example_token) := None)
      = Map.empty"
    by (simp add: getTokenFile_logged_in) (simp add: logged_in_def)
  have 4: "console example_world = []" by (simp add: example_world_def)
  show ?thesis using a b c 1 2 3 4 by simp
qed

lemma loadToken_logged_in: "loadToken (logged_in t) = Some t"
  by (simp add: loadToken_def getTokenFile_logged_in) (simp add: logged_in_def)

lemma now_logged_in: "now (logged_in t) = 1000"
  by (simp add: logged_in_def example_world_def)

lemma calls_logged_in: "calls (logged_in t) = []"
  by (simp add: logged_in_def example_world_def)


lemma getAuthClient_cases:
  assumes "loadCredentials e (currentProfile w) = Inr a" and "loadToken w = Some t"
  shows "getAuthClient e w =
     (if needs_refresh t (now w) then
        (case refreshAccessToken e \<lparr>app = a, credentials = Some t\<rparr> of
           Inl err \<Rightarrow> (Inl TokenRefreshError, w\<lparr>calls := calls w @ [RefreshAccessToken]\<rparr>)
         | Inr creds \<Rightarrow>
             (case saveToken e creds (w\<lparr>calls := calls w @ [RefreshAccessToken]\<rparr>) of
                Inl err \<Rightarrow> (Inl TokenRefreshError, w\<lparr>calls := calls w @ [RefreshAccessToken]\<rparr>)
              | Inr w2 \<Rightarrow> (Inr \<lparr>app = a, credentials = Some creds\<rparr>, w2)))
      else (Inr \<lparr>app = a, credentials = Some t\<rparr>, w))"
  using assms
  by (simp add: getAuthClient_def createOAuth2Client_def Let_def split: sum.splits)




section \<open>Verified properties: replies\<close>

lemma startsWith_prefix: "startsWith s p \<longleftrightarrow> prefix p s"
proof
  assume "startsWith s p"
  then have "s = p @ drop (length p) s"
    unfolding startsWith_def by (metis append_take_drop_id)
  then show "prefix p s" by (metis prefixI)
next
  assume "prefix p s"
  then obtain zs where "s = p @ zs" by (auto simp: prefix_def)
  then show "startsWith s p" by (simp add: startsWith_def)
qed

lemma split_on_free: "d \<notin> set l \<Longrightarrow> split_on d l = [l]"
  by (induction l) auto

lemma split_on_append: "d \<notin> set l \<Longrightarrow> split_on d (l @ d # rest) = l # split_on d rest"
  by (induction l) auto

lemma split_on_join:
  "ls \<noteq> [] \<Longrightarrow> \<forall>l \<in> set ls. d \<notin> set l \<Longrightarrow> split_on d (join [d] ls) = ls"
proof (induction "[d]" ls rule: join.induct)
  case 1
  then show ?case by simp
next
  case (2 x)
  then show ?case by (simp add: split_on_free)
next
  case (3 x y ys)
  then show ?case by (simp add: split_on_append)
qed

lemma quotedText_lines:
  assumes "ls \<noteq> []" and "\<forall>l \<in> set ls. LF \<notin> set l"
  shows "quotedText (join [LF] ls) = join [LF] (map (\<lambda>l. ''> '' @ l) ls)"
  using assms by (simp add: quotedText_def split_on_join)

lemma replyOptions_Inr:
  assumes "replyOptions opts m = Inr r"
  shows "truthy (getHeader m ''Message-ID'')"
    and "to r = reply_to (getHeader m ''From'')"
    and "subject r = Some (reply_subject (getHeader m ''Subject''))"
    and "opt_headers r = Some [(''In-Reply-To'', interp (getHeader m ''Message-ID'')),
            (''References'', reply_references (getHeader m ''References'')
                               (interp (getHeader m ''Message-ID'')))]"
    and "attachments r = attachments opts"
    and "quote opts \<Longrightarrow> \<exists>ob. getMessageBody m = Inr ob
            \<and> bodyTxt r = quote_txt m (bodyTxt opts) ob
            \<and> bodyHtml r = quote_html (bodyHtml opts) ob"
    and "\<not> quote opts \<Longrightarrow> bodyTxt r = bodyTxt opts \<and> bodyHtml r = bodyHtml opts"
  using assms
  by (auto simp: replyOptions_def Let_def split: if_splits sum.splits)

lemma replyOptions_total:
  "(\<exists>r. replyOptions opts m = Inr r) \<longleftrightarrow>
     truthy (getHeader m ''Message-ID'') \<and> (quote opts \<longrightarrow> (\<exists>ob. getMessageBody m = Inr ob))"
  by (auto simp: replyOptions_def Let_def split: if_splits sum.splits)

lemma build_messageConfig_Inr:
  assumes "build_messageConfig w opts = Inr cfg"
  shows "mc_to cfg = to opts"
    and "mc_subject cfg = subject opts"
    and "mc_headers cfg = (case opt_headers opts of None \<Rightarrow> [] | Some h \<Rightarrow> h)"
    and "mc_text cfg = (if truthy (bodyTxt opts) then bodyTxt opts else None)"
    and "mc_html cfg = (if truthy (bodyHtml opts) then bodyHtml opts else None)"
  using assms
  by (auto simp: build_messageConfig_def Let_def split: option.splits list.splits sum.splits if_splits)

lemma replyToEmail_fetched:
  assumes "getGmailClient e w = (Inr g, w1)" and "messages_get e g (messageId opts) = Inr m"
  shows "replyToEmail e opts w =
     (case replyOptions opts m of
        Inl err \<Rightarrow> (Inl err, w1\<lparr>calls := calls w1 @ [MessagesGet (messageId opts)]\<rparr>)
      | Inr reply \<Rightarrow>
          (case buildMimeMessage e (w1\<lparr>calls := calls w1 @ [MessagesGet (messageId opts)]\<rparr>) reply of
             Inl err \<Rightarrow> (Inl err, w1\<lparr>calls := calls w1 @ [MessagesGet (messageId opts)]\<rparr>)
           | Inr encodedMessage \<Rightarrow>
               deliver e g (draft opts) encodedMessage (Some (threadId m))
                 (w1\<lparr>calls := calls w1 @ [MessagesGet (messageId opts)]\<rparr>)))"
  using assms by (simp add: replyToEmail_def Let_def)

subsection \<open>The example messages\<close>

lemma report_Subject: "getHeader (original_message (report_headers s)) ''Subject'' = Some s"
  unfolding original_message_def report_headers_def hdr_def by code_simp

lemma report_Message_ID:
  "getHeader (original_message (report_headers s)) ''Message-ID'' = Some ''<abc@x>''"
  unfolding original_message_def report_headers_def hdr_def by code_simp

lemma report_References: "getHeader (original_message (report_headers s)) ''References'' = None"
  unfolding original_message_def report_headers_def hdr_def by code_simp

lemma report_From: "getHeader (original_message (report_headers s)) ''From'' = Some ''Ann <ann@x>''"
  unfolding original_message_def report_headers_def hdr_def by code_simp

lemma report_Date: "getHeader (original_message (report_headers s)) ''Date'' = Some ''Mon, 1 Jan 2024''"
  unfolding original_message_def report_headers_def hdr_def by code_simp

lemma no_id_Message_ID: "getHeader (original_message no_id_headers) ''Message-ID'' = None"
  unfolding original_message_def no_id_headers_def hdr_def by code_simp

lemma threaded_Message_ID:
  "getHeader (original_message threaded_headers) ''Message-ID'' = Some ''<abc@x>''"
  unfolding original_message_def threaded_headers_def hdr_def by code_simp

lemma threaded_References:
  "getHeader (original_message threaded_headers) ''References'' = Some ''<a@x> <b@x>''"
  unfolding original_message_def threaded_headers_def hdr_def by code_simp

lemma empty_id_Message_ID:
  "getHeader (original_message empty_id_headers) ''Message-ID'' = Some []"
  unfolding original_message_def empty_id_headers_def hdr_def by code_simp

lemma empty_references_Message_ID:
  "getHeader (original_message empty_references_headers) ''Message-ID'' = Some ''<abc@x>''"
  unfolding original_message_def empty_references_headers_def hdr_def by code_simp

lemma empty_references_References:
  "getHeader (original_message empty_references_headers) ''References'' = Some []"
  unfolding original_message_def empty_references_headers_def hdr_def by code_simp

lemma quote_reply_request: "\<not> quote reply_request"
  by (simp add: reply_request_def)

lemma alternative_body:
  "getMessageBody (alternative_message hs) =
     Inr \<lparr>textBody = [CHR ''a'', LF, CHR ''b''], htmlBody = ''<p>a</p>''\<rparr>"
  unfolding alternative_message_def by code_simp

lemma alternative_headers:
  "getHeader (alternative_message hs) n = getHeader (original_message hs) n"
  by (simp add: getHeader_def alternative_message_def original_message_def)

lemma replyOptions_alternative:
  "quote opts \<Longrightarrow> replyOptions opts (alternative_message (report_headers s)) =
     Inr (projr (replyOptions opts (alternative_message (report_headers s))))"
proof -
  have "truthy (getHeader (alternative_message (report_headers s)) ''Message-ID'')"
    by (simp add: alternative_headers report_Message_ID truthy_def)
  then have "\<exists>r. replyOptions opts (alternative_message (report_headers s)) = Inr r"
    unfolding replyOptions_total by (simp add: alternative_body)
  then show ?thesis by auto
qed

lemma getGmailClient_serving:
  "getGmailClient (serving m) (logged_in valid_token) =
     (Inr example_client, (logged_in valid_token)\<lparr>gmailClient := Some example_client\<rparr>)"
proof -
  have c: "loadCredentials (serving m) (currentProfile (logged_in valid_token)) = Inr example_app"
    by (simp add: serving_def example_env_def example_app_def)
  have n: "\<not> needs_refresh valid_token (now (logged_in valid_token))"
    by (simp add: needs_refresh_def valid_token_def now_logged_in)
  have g: "gmailClient (logged_in valid_token) = None"
    by (simp add: logged_in_def example_world_def)
  show ?thesis
    using n g
    by (simp add: getGmailClient_def getAuthClient_cases [OF c loadToken_logged_in]
        example_client_def)
qed

lemma messages_get_serving: "messages_get (serving m) g i = Inr m"
  by (simp add: serving_def)

lemma decode_YQpi: "decodeBase64Url (Some ''YQpi'') = [CHR ''a'', LF, CHR ''b'']"
  by code_simp

lemma original_body:
  "getMessageBody (original_message hs) = Inr \<lparr>textBody = [CHR ''a'', LF, CHR ''b''], htmlBody = []\<rparr>"
  by (simp add: getMessageBody_def original_message_def truthy_def decode_YQpi)

lemma reply_to_Ann: "reply_to (Some ''Ann <ann@x>'') = Some ''ann@x''"
  by code_simp

lemma replyOptions_report:
  "replyOptions reply_request (original_message (report_headers s)) =
     Inr \<lparr>to = Some ''ann@x'', from_addr = None, subject = Some (reply_subject (Some s)),
          bodyTxt = Some ''Thanks'', bodyHtml = None, cc = None, bcc = None, attachments = None,
          opt_headers = Some [(''In-Reply-To'', ''<abc@x>''), (''References'', ''<abc@x>'')]\<rparr>"
  by (simp add: replyOptions_def report_Subject report_Message_ID report_References report_From
      reply_to_Ann reply_references_def truthy_def interp_def reply_request_def)

subsection \<open>Threading headers\<close>

text \<open>
  Claim C2 reads: a reply fails with \<open>MissingMessageId\<close> when the original has no
  Message-ID header and is composed otherwise, and the References of the original, when
  it has that header, are followed by a space and the Message-ID. That fails: the source
  tests both header values by truthiness. An original whose Message-ID header is present with an empty value
  makes \<open>replyToEmail\<close> fail; an original whose References header is present with an empty
  value gets the bare Message-ID as References, with no space before it.
\<close>

theorem reply_threading_counterexample:
  "getHeader (original_message empty_id_headers) ''Message-ID'' = Some []
   \<and> fst (replyToEmail (serving (original_message empty_id_headers)) reply_request
            (logged_in valid_token)) = Inl MissingMessageId
   \<and> getHeader (original_message empty_references_headers) ''References'' = Some []
   \<and> getHeader (original_message empty_references_headers) ''Message-ID'' = Some ''<abc@x>''
   \<and> opt_headers (projr (replyOptions reply_request (original_message empty_references_headers)))
       = Some [(''In-Reply-To'', ''<abc@x>''), (''References'', ''<abc@x>'')]"
proof -
  have "replyOptions reply_request (original_message empty_id_headers) = Inl MissingMessageId"
    by (simp add: replyOptions_def empty_id_Message_ID truthy_def)
  then have 1: "fst (replyToEmail (serving (original_message empty_id_headers)) reply_request
            (logged_in valid_token)) = Inl MissingMessageId"
    by (simp add: replyToEmail_fetched [OF getGmailClient_serving messages_get_serving])
  have 2: "opt_headers (projr (replyOptions reply_request (original_message empty_references_headers)))
       = Some [(''In-Reply-To'', ''<abc@x>''), (''References'', ''<abc@x>'')]"
    by (simp add: replyOptions_def empty_references_Message_ID empty_references_References
        truthy_def interp_def reply_references_def quote_reply_request)
  show ?thesis
    using 1 2 by (simp add: empty_id_Message_ID empty_references_Message_ID empty_references_References)
qed

text \<open>
  Claim C2, amended. For the original message fetched: if it has no Message-ID header, or
  one with an empty value, \<open>replyToEmail\<close> fails with \<open>MissingMessageId\<close>; with a non-empty
  Message-ID (and, when quoting is requested, bodies that can be extracted) the options
  of the reply are derived. Every
  reply composed carries In-Reply-To equal to the original Message-ID, and References
  equal to the original References, a space and the Message-ID when the original has a
  non-empty References header, and equal to the Message-ID alone otherwise; these two
  headers are the ones handed to the mail library.
\<close>

theorem reply_threading:
  assumes "getGmailClient e w = (Inr g, w1)" and "messages_get e g (messageId opts) = Inr m"
  shows "(\<not> truthy (getHeader m ''Message-ID'') \<longrightarrow>
            fst (replyToEmail e opts w) = Inl MissingMessageId)
       \<and> (truthy (getHeader m ''Message-ID'')
            \<and> (quote opts \<longrightarrow> (\<exists>ob. getMessageBody m = Inr ob)) \<longrightarrow>
            (\<exists>r. replyOptions opts m = Inr r))
       \<and> (\<forall>r mid. replyOptions opts m = Inr r \<and> getHeader m ''Message-ID'' = Some mid \<longrightarrow>
            mid \<noteq> []
            \<and> opt_headers r = Some
                [(''In-Reply-To'', mid),
                 (''References'',
                  (case getHeader m ''References'' of
                     None \<Rightarrow> mid
                   | Some refs \<Rightarrow> if refs = [] then mid else refs @ '' '' @ mid))]
            \<and> (\<forall>w' cfg. build_messageConfig w' r = Inr cfg \<longrightarrow>
                  mc_headers cfg = the (opt_headers r)))"
proof (intro conjI allI impI)
  assume "\<not> truthy (getHeader m ''Message-ID'')"
  then have "replyOptions opts m = Inl MissingMessageId"
    by (simp add: replyOptions_def)
  then show "fst (replyToEmail e opts w) = Inl MissingMessageId"
    by (simp add: replyToEmail_fetched [OF assms])
next
  assume "truthy (getHeader m ''Message-ID'')
            \<and> (quote opts \<longrightarrow> (\<exists>ob. getMessageBody m = Inr ob))"
  then show "\<exists>r. replyOptions opts m = Inr r" by (simp add: replyOptions_total)
next
  fix r mid
  assume a: "replyOptions opts m = Inr r \<and> getHeader m ''Message-ID'' = Some mid"
  from a replyOptions_Inr(1) [of opts m r] show "mid \<noteq> []" by (simp add: truthy_def)
  from a replyOptions_Inr(4) [of opts m r]
  show h: "opt_headers r = Some
                [(''In-Reply-To'', mid),
                 (''References'',
                  (case getHeader m ''References'' of
                     None \<Rightarrow> mid
                   | Some refs \<Rightarrow> if refs = [] then mid else refs @ '' '' @ mid))]"
    by (simp add: reply_references_def interp_def truthy_def split: option.splits)
  fix w' cfg
  assume "build_messageConfig w' r = Inr cfg"
  from build_messageConfig_Inr(3) [OF this] h
  show "mc_headers cfg = the (opt_headers r)" by simp
qed

theorem reply_threading_witness:
  "fst (replyToEmail (serving (original_message no_id_headers)) reply_request
          (logged_in valid_token)) = Inl MissingMessageId
   \<and> opt_headers (projr (replyOptions reply_request (original_message (report_headers ''Report''))))
       = Some [(''In-Reply-To'', ''<abc@x>''), (''References'', ''<abc@x>'')]
   \<and> opt_headers (projr (replyOptions reply_request (original_message threaded_headers)))
       = Some [(''In-Reply-To'', ''<abc@x>''), (''References'', ''<a@x> <b@x> <abc@x>'')]"
proof -
  note a = reply_threading [OF getGmailClient_serving messages_get_serving,
      of "original_message no_id_headers" reply_request]
  note b = reply_threading [OF getGmailClient_serving messages_get_serving,
      of "original_message (report_headers ''Report'')" reply_request]
  note c = reply_threading [OF getGmailClient_serving messages_get_serving,
      of "original_message threaded_headers" reply_request]
  have 1: "fst (replyToEmail (serving (original_message no_id_headers)) reply_request
          (logged_in valid_token)) = Inl MissingMessageId"
    using a by (simp add: no_id_Message_ID truthy_def)
  from b obtain r where r: "replyOptions reply_request (original_message (report_headers ''Report'')) = Inr r"
    by (auto simp: report_Message_ID truthy_def quote_reply_request)
  with b have 2: "opt_headers r = Some [(''In-Reply-To'', ''<abc@x>''), (''References'', ''<abc@x>'')]"
    by (simp add: report_Message_ID report_References)
  from c obtain r' where r': "replyOptions reply_request (original_message threaded_headers) = Inr r'"
    by (auto simp: threaded_Message_ID truthy_def quote_reply_request)
  with c have 3: "opt_headers r' = Some [(''In-Reply-To'', ''<abc@x>''), (''References'', ''<a@x> <b@x> <abc@x>'')]"
    by (simp add: threaded_Message_ID threaded_References)
  show ?thesis using 1 2 3 r r' by simp
qed

subsection \<open>Subject\<close>

text \<open>
  Claim C5. For an original message with a Subject header \<open>s\<close>, the subject of the reply
  is \<open>s\<close> itself when \<open>s\<close> starts with the three characters \<open>Re:\<close> (compared as they are,
  so \<open>RE:\<close> does not count), and \<open>Re: \<close> followed by \<open>s\<close> otherwise.
\<close>

theorem reply_subject_prefix:
  assumes "replyOptions opts m = Inr r" and "getHeader m ''Subject'' = Some s"
  shows "(prefix ''Re:'' s \<longrightarrow> subject r = Some s)
       \<and> (\<not> prefix ''Re:'' s \<longrightarrow> subject r = Some (''Re: '' @ s))"
  using replyOptions_Inr(3) [OF assms(1)] assms(2)
  by (simp add: reply_subject_def startsWith_prefix interp_def truthy_def)

theorem reply_subject_prefix_witness:
  "subject (projr (replyOptions reply_request (original_message (report_headers ''Report''))))
     = Some ''Re: Report''
   \<and> subject (projr (replyOptions reply_request (original_message (report_headers ''Re: Report''))))
     = Some ''Re: Report''
   \<and> subject (projr (replyOptions reply_request (original_message (report_headers ''RE: Report''))))
     = Some ''Re: RE: Report''"
proof -
  have a: "\<not> prefix ''Re:'' ''Report''" and b: "prefix ''Re:'' ''Re: Report''"
    and c: "\<not> prefix ''Re:'' ''RE: Report''"
    by (simp_all add: startsWith_prefix [symmetric] startsWith_def)
  have r: "replyOptions reply_request (original_message (report_headers s))
      = Inr (projr (replyOptions reply_request (original_message (report_headers s))))" for s
    by (simp add: replyOptions_report)
  show ?thesis
    using reply_subject_prefix [OF r report_Subject, of "''Report''"]
      reply_subject_prefix [OF r report_Subject, of "''Re: Report''"]
      reply_subject_prefix [OF r report_Subject, of "''RE: Report''"] a b c
    by simp
qed

subsection \<open>Quoting\<close>

text \<open>
  Claim C6. With quoting requested and the bodies of the original extracted: when the
  request has a plain body and the original has one, made of the lines \<open>ls\<close>, the plain
  body of the reply is the new body, an empty line, the attribution line
  "On date, from wrote:" and the lines of the original, each prefixed with \<open>> \<close> and
  joined by line feeds; when the request has an HTML body and the original has one, the
  HTML body of the reply is the new one followed by the original inside a blockquote
  element. Each of the two is left as the request gave it when its own condition fails,
  whatever happens to the other.
\<close>

theorem reply_quoting:
  assumes "replyOptions opts m = Inr r" and "quote opts" and "getMessageBody m = Inr ob"
  shows "(truthy (bodyTxt opts) \<and> textBody ob \<noteq> [] \<longrightarrow>
            (\<forall>ls. ls \<noteq> [] \<and> (\<forall>l \<in> set ls. LF \<notin> set l) \<and> textBody ob = join [LF] ls \<longrightarrow>
               bodyTxt r = Some (interp (bodyTxt opts) @ [LF, LF]
                 @ ''On '' @ interp (getHeader m ''Date'') @ '', ''
                 @ interp (getHeader m ''From'') @ '' wrote:'' @ [LF]
                 @ join [LF] (map (\<lambda>l. ''> '' @ l) ls))))
       \<and> (truthy (bodyHtml opts) \<and> htmlBody ob \<noteq> [] \<longrightarrow>
            bodyHtml r = Some (interp (bodyHtml opts) @ ''<br><br><blockquote>''
                 @ htmlBody ob @ ''</blockquote>''))
       \<and> (\<not> (truthy (bodyTxt opts) \<and> textBody ob \<noteq> []) \<longrightarrow> bodyTxt r = bodyTxt opts)
       \<and> (\<not> (truthy (bodyHtml opts) \<and> htmlBody ob \<noteq> []) \<longrightarrow> bodyHtml r = bodyHtml opts)"
proof -
  from replyOptions_Inr(6) [OF assms(1,2)] assms(3)
  have t: "bodyTxt r = quote_txt m (bodyTxt opts) ob"
    and h: "bodyHtml r = quote_html (bodyHtml opts) ob" by simp_all
  have 1: "bodyTxt r = Some (interp (bodyTxt opts) @ [LF, LF]
                 @ ''On '' @ interp (getHeader m ''Date'') @ '', ''
                 @ interp (getHeader m ''From'') @ '' wrote:'' @ [LF]
                 @ join [LF] (map (\<lambda>l. ''> '' @ l) ls))"
    if "truthy (bodyTxt opts) \<and> textBody ob \<noteq> []"
      and "ls \<noteq> [] \<and> (\<forall>l \<in> set ls. LF \<notin> set l) \<and> textBody ob = join [LF] ls" for ls
    using that t quotedText_lines [of ls] by (simp add: quote_txt_def)
  have 2: "bodyHtml r = Some (interp (bodyHtml opts) @ ''<br><br><blockquote>''
                 @ htmlBody ob @ ''</blockquote>'')"
    if "truthy (bodyHtml opts) \<and> htmlBody ob \<noteq> []"
    using that h by (simp add: quote_html_def)
  have 3: "bodyTxt r = bodyTxt opts" if "\<not> (truthy (bodyTxt opts) \<and> textBody ob \<noteq> [])"
    unfolding t quote_txt_def using that by (rule if_not_P)
  have 4: "bodyHtml r = bodyHtml opts" if "\<not> (truthy (bodyHtml opts) \<and> htmlBody ob \<noteq> [])"
    unfolding h quote_html_def using that by (rule if_not_P)
  from 1 2 3 4 show ?thesis by blast
qed

theorem reply_quoting_witness:
  "bodyTxt (projr (replyOptions quoting_both (alternative_message (report_headers ''Report''))))
     = Some (''Thanks'' @ [LF, LF] @ ''On Mon, 1 Jan 2024, Ann <ann@x> wrote:'' @ [LF]
             @ ''> a'' @ [LF] @ ''> b'')
   \<and> bodyHtml (projr (replyOptions quoting_both (alternative_message (report_headers ''Report''))))
     = Some ''<p>ok</p><br><br><blockquote><p>a</p></blockquote>''
   \<and> bodyHtml (projr (replyOptions quoting_plain_only
                         (alternative_message (report_headers ''Report'')))) = None
   \<and> bodyTxt (projr (replyOptions quoting_html_only
                         (alternative_message (report_headers ''Report'')))) = None"
proof -
  have q: "quote quoting_both" "quote quoting_plain_only" "quote quoting_html_only"
    by (simp_all add: quoting_both_def quoting_plain_only_def quoting_html_only_def)
  note a = reply_quoting [OF replyOptions_alternative [OF q(1), of "''Report''"] q(1)
      alternative_body [of "report_headers ''Report''"]]
  note b = reply_quoting [OF replyOptions_alternative [OF q(2), of "''Report''"] q(2)
      alternative_body [of "report_headers ''Report''"]]
  note c = reply_quoting [OF replyOptions_alternative [OF q(3), of "''Report''"] q(3)
      alternative_body [of "report_headers ''Report''"]]
  have ls: "[''a'', ''b''] \<noteq> [] \<and> (\<forall>l \<in> set [''a'', ''b'']. LF \<notin> set l)
      \<and> textBody \<lparr>textBody = [CHR ''a'', LF, CHR ''b''], htmlBody = ''<p>a</p>''\<rparr>
          = join [LF] [''a'', ''b'']"
    by simp
  have t: "truthy (bodyTxt quoting_both)" "bodyTxt quoting_both = Some ''Thanks''"
    "truthy (bodyHtml quoting_both)" "bodyHtml quoting_both = Some ''<p>ok</p>''"
    by (simp_all add: quoting_both_def reply_request_def truthy_def)
  have u: "\<not> truthy (bodyHtml quoting_plain_only)" "bodyHtml quoting_plain_only = None"
    by (simp_all add: quoting_plain_only_def reply_request_def truthy_def)
  have v: "\<not> truthy (bodyTxt quoting_html_only)" "bodyTxt quoting_html_only = None"
    by (simp_all add: quoting_html_only_def reply_request_def truthy_def)
  from a t ls
  have 1: "bodyTxt (projr (replyOptions quoting_both (alternative_message (report_headers ''Report''))))
     = Some (interp (Some ''Thanks'') @ [LF, LF] @ ''On ''
         @ interp (getHeader (alternative_message (report_headers ''Report'')) ''Date'') @ '', ''
         @ interp (getHeader (alternative_message (report_headers ''Report'')) ''From'')
         @ '' wrote:'' @ [LF] @ join [LF] (map (\<lambda>l. ''> '' @ l) [''a'', ''b'']))"
    by (metis bodies.simps(1) list.distinct(1))
  from a t
  have 2: "bodyHtml (projr (replyOptions quoting_both (alternative_message (report_headers ''Report''))))
     = Some (interp (Some ''<p>ok</p>'') @ ''<br><br><blockquote>'' @ ''<p>a</p>'' @ ''</blockquote>'')"
    by simp
  from b u
  have 3: "bodyHtml (projr (replyOptions quoting_plain_only
                         (alternative_message (report_headers ''Report'')))) = None"
    by simp
  from c v
  have 4: "bodyTxt (projr (replyOptions quoting_html_only
                         (alternative_message (report_headers ''Report'')))) = None"
    by simp
  show ?thesis
    using 1 2 3 4
    by (simp add: alternative_headers report_Date report_From interp_def)
qed

text \<open>
  Claim C10. With quoting requested, a request without a plain body gets no plain body by
  quoting: the reply keeps the absent body and the message configuration has no text
  part, whatever the original holds; the same for HTML.
\<close>

theorem reply_quote_needs_new_body:
  assumes "replyOptions opts m = Inr r" and "quote opts"
  shows "(\<not> truthy (bodyTxt opts) \<longrightarrow>
            bodyTxt r = bodyTxt opts
            \<and> (\<forall>w cfg. build_messageConfig w r = Inr cfg \<longrightarrow> mc_text cfg = None))
       \<and> (\<not> truthy (bodyHtml opts) \<longrightarrow>
            bodyHtml r = bodyHtml opts
            \<and> (\<forall>w cfg. build_messageConfig w r = Inr cfg \<longrightarrow> mc_html cfg = None))"
proof -
  from replyOptions_Inr(6) [OF assms] obtain ob
    where t: "bodyTxt r = quote_txt m (bodyTxt opts) ob"
      and h: "bodyHtml r = quote_html (bodyHtml opts) ob" by blast
  have 1: "bodyTxt r = bodyTxt opts" if "\<not> truthy (bodyTxt opts)"
    using that t by (simp add: quote_txt_def)
  have 2: "bodyHtml r = bodyHtml opts" if "\<not> truthy (bodyHtml opts)"
    using that h by (simp add: quote_html_def)
  have 3: "mc_text cfg = None"
    if "\<not> truthy (bodyTxt opts)" "build_messageConfig w r = Inr cfg" for w cfg
    using build_messageConfig_Inr(4) [OF that(2)] 1 [OF that(1)] that(1) by simp
  have 4: "mc_html cfg = None"
    if "\<not> truthy (bodyHtml opts)" "build_messageConfig w r = Inr cfg" for w cfg
    using build_messageConfig_Inr(5) [OF that(2)] 2 [OF that(1)] that(1) by simp
  from 1 2 3 4 show ?thesis by blast
qed

theorem reply_quote_needs_new_body_witness:
  "bodyTxt (projr (replyOptions quoting_html_only
                     (alternative_message (report_headers ''Report'')))) = None
   \<and> mc_text (projr (build_messageConfig example_world
        (projr (replyOptions quoting_html_only
                  (alternative_message (report_headers ''Report'')))))) = None
   \<and> bodyHtml (projr (replyOptions quoting_plain_only
                     (alternative_message (report_headers ''Report'')))) = None
   \<and> mc_html (projr (build_messageConfig example_world
        (projr (replyOptions quoting_plain_only
                  (alternative_message (report_headers ''Report'')))))) = None"
proof -
  have q: "quote quoting_plain_only" "quote quoting_html_only"
    by (simp_all add: quoting_plain_only_def quoting_html_only_def)
  note b = reply_quote_needs_new_body [OF replyOptions_alternative [OF q(1), of "''Report''"] q(1)]
  note c = reply_quote_needs_new_body [OF replyOptions_alternative [OF q(2), of "''Report''"] q(2)]
  have u: "\<not> truthy (bodyHtml quoting_plain_only)" "bodyHtml quoting_plain_only = None"
    "attachments quoting_plain_only = None"
    by (simp_all add: quoting_plain_only_def reply_request_def truthy_def)
  have v: "\<not> truthy (bodyTxt quoting_html_only)" "bodyTxt quoting_html_only = None"
    "attachments quoting_html_only = None"
    by (simp_all add: quoting_html_only_def reply_request_def truthy_def)
  have k: "build_messageConfig w r = Inr (projr (build_messageConfig w r))"
    if "attachments r = None" for w and r :: mime_options
    using that by (simp add: build_messageConfig_def)
  have ab: "attachments (projr (replyOptions quoting_plain_only
                     (alternative_message (report_headers ''Report'')))) = None"
    using replyOptions_Inr(5) [OF replyOptions_alternative [OF q(1), of "''Report''"]] u(3) by simp
  have ac: "attachments (projr (replyOptions quoting_html_only
                     (alternative_message (report_headers ''Report'')))) = None"
    using replyOptions_Inr(5) [OF replyOptions_alternative [OF q(2), of "''Report''"]] v(3) by simp
  show ?thesis
    using b c u v k [OF ab, of example_world] k [OF ac, of example_world] by simp
qed

section \<open>Verified properties: label resolver\<close>

lemma getLabels_cached: "labelCache w = Some ls \<Longrightarrow> getLabels e False w = (Inr ls, w)"
  by (simp add: getLabels_def)

lemma getLabels_fetch:
  assumes "labelCache w = None" and "getGmailClient e w = (Inr g, w1)"
    and "labels_list e g = Inr response"
  shows "getLabels e False w =
     (Inr (case response of None \<Rightarrow> [] | Some l \<Rightarrow> l),
      w1\<lparr>calls := calls w1 @ [LabelsList],
         labelCache := Some (case response of None \<Rightarrow> [] | Some l \<Rightarrow> l)\<rparr>)"
  using assms by (simp add: getLabels_def Let_def)

lemma getLabels_uncached_Inr:
  assumes "labelCache w = None" and "getLabels e False w = (Inr ls, w1)"
  shows "labelCache w1 = Some ls \<and> (\<exists>cs. calls w1 = cs @ [LabelsList])"
  using assms
  by (auto simp: getLabels_def Let_def split: prod.splits sum.splits)

lemma getLabelIdByName_found:
  assumes "getLabels e False w = (Inr ls, w1)" and "find (\<lambda>l. label_name l = q) ls = Some l"
  shows "getLabelIdByName e q w = (Inr (label_id l), w1)"
  using assms by (simp add: getLabelIdByName_def)

lemma getLabelIdByName_missing:
  assumes "getLabels e False w = (Inr ls, w1)" and "find (\<lambda>l. label_name l = q) ls = None"
  shows "getLabelIdByName e q w = (Inl (LabelNotFound q (map label_name ls)), w1)"
  using assms by (simp add: getLabelIdByName_def)

lemma getGmailClient_logged_in:
  assumes "loadCredentials e ''default'' = Inr example_app"
  shows "getGmailClient e (logged_in valid_token) =
     (Inr example_client, (logged_in valid_token)\<lparr>gmailClient := Some example_client\<rparr>)"
proof -
  have c: "loadCredentials e (currentProfile (logged_in valid_token)) = Inr example_app"
    using assms by (simp add: logged_in_def example_world_def)
  have n: "\<not> needs_refresh valid_token (now (logged_in valid_token))"
    by (simp add: needs_refresh_def valid_token_def now_logged_in)
  have g: "gmailClient (logged_in valid_token) = None"
    by (simp add: logged_in_def example_world_def)
  show ?thesis
    using n g
    by (simp add: getGmailClient_def getAuthClient_cases [OF c loadToken_logged_in]
        example_client_def)
qed

lemma getLabels_labelled:
  "getLabels labelled False (logged_in valid_token) =
     (Inr example_labels,
      (logged_in valid_token)\<lparr>gmailClient := Some example_client, calls := [LabelsList],
                                labelCache := Some example_labels\<rparr>)"
proof -
  have c: "loadCredentials labelled ''default'' = Inr example_app"
    by (simp add: labelled_def example_env_def example_app_def)
  have l: "labelCache (logged_in valid_token) = None"
    by (simp add: logged_in_def example_world_def)
  have r: "labels_list labelled example_client = Inr (Some example_labels)"
    by (simp add: labelled_def)
  show ?thesis
    using getLabels_fetch [OF l getGmailClient_logged_in [OF c] r]
    by (simp add: calls_logged_in)
qed

lemma first_Work:
  "1 < length example_labels \<and> label_name (example_labels ! 1) = ''Work''
   \<and> (\<forall>j<1. label_name (example_labels ! j) \<noteq> ''Work'')"
  by (simp add: example_labels_def mk_label_def)

lemma no_Wor: "\<forall>l \<in> set example_labels. label_name l \<noteq> ''Wor''"
  by (simp add: example_labels_def mk_label_def)

text \<open>
  Claim C7. Let \<open>getLabels\<close> without forced refresh answer the list \<open>ls\<close>. Then
  \<open>getLabelIdByName\<close> leaves the state as \<open>getLabels\<close> left it; it returns the identifier
  of the label at the first position whose name equals the query; when no name equals
  the query it fails with \<open>LabelNotFound\<close> carrying the query and all the names of \<open>ls\<close> in
  order; an identifier returned belongs to a label of \<open>ls\<close> whose name equals the query
  (so no name that only resembles it is matched). When the cache is set, \<open>ls\<close> is the cache
  and the state is untouched (nothing is fetched); when it is unset, it is filled with
  \<open>ls\<close> by a call that lists the labels.
\<close>

theorem getLabelIdByName_first_exact:
  assumes "getLabels e False w = (Inr ls, w1)"
  shows "snd (getLabelIdByName e q w) = w1
       \<and> (\<forall>k. k < length ls \<and> label_name (ls ! k) = q \<and> (\<forall>j<k. label_name (ls ! j) \<noteq> q) \<longrightarrow>
             fst (getLabelIdByName e q w) = Inr (label_id (ls ! k)))
       \<and> ((\<forall>l \<in> set ls. label_name l \<noteq> q) \<longrightarrow>
             fst (getLabelIdByName e q w) = Inl (LabelNotFound q (map label_name ls)))
       \<and> (\<forall>i. fst (getLabelIdByName e q w) = Inr i \<longrightarrow>
             (\<exists>l \<in> set ls. label_name l = q \<and> label_id l = i))
       \<and> (\<forall>cache. labelCache w = Some cache \<longrightarrow> ls = cache \<and> w1 = w)
       \<and> (labelCache w = None \<longrightarrow>
             labelCache w1 = Some ls \<and> (\<exists>cs. calls w1 = cs @ [LabelsList]))"
proof (intro conjI allI impI)
  show "snd (getLabelIdByName e q w) = w1"
    using assms by (simp add: getLabelIdByName_def split: option.splits)
next
  fix k
  assume "k < length ls \<and> label_name (ls ! k) = q \<and> (\<forall>j<k. label_name (ls ! j) \<noteq> q)"
  then have "find (\<lambda>l. label_name l = q) ls = Some (ls ! k)"
    unfolding find_Some_iff by blast
  from getLabelIdByName_found [OF assms this]
  show "fst (getLabelIdByName e q w) = Inr (label_id (ls ! k))" by simp
next
  assume "\<forall>l \<in> set ls. label_name l \<noteq> q"
  then have "find (\<lambda>l. label_name l = q) ls = None"
    unfolding find_None_iff by blast
  from getLabelIdByName_missing [OF assms this]
  show "fst (getLabelIdByName e q w) = Inl (LabelNotFound q (map label_name ls))" by simp
next
  fix i
  assume i: "fst (getLabelIdByName e q w) = Inr i"
  show "\<exists>l \<in> set ls. label_name l = q \<and> label_id l = i"
  proof (cases "find (\<lambda>l. label_name l = q) ls")
    case None
    from getLabelIdByName_missing [OF assms this] i show ?thesis by simp
  next
    case (Some l)
    then have "l \<in> set ls \<and> label_name l = q"
      unfolding find_Some_iff by auto
    moreover from getLabelIdByName_found [OF assms Some] i have "label_id l = i" by simp
    ultimately show ?thesis by blast
  qed
next
  fix cache
  assume "labelCache w = Some cache"
  from getLabels_cached [OF this, of e] assms show "ls = cache" and "w1 = w" by simp_all
next
  assume "labelCache w = None"
  from getLabels_uncached_Inr [OF this assms]
  show "labelCache w1 = Some ls" and "\<exists>cs. calls w1 = cs @ [LabelsList]" by simp_all
qed

theorem getLabelIdByName_first_exact_witness:
  "fst (getLabelIdByName example_env ''Work'' cached_world) = Inr ''Label_2''
   \<and> snd (getLabelIdByName example_env ''Work'' cached_world) = cached_world
   \<and> fst (getLabelIdByName example_env ''Wor'' cached_world)
       = Inl (LabelNotFound ''Wor'' [''work'', ''Work'', ''Work'', ''Workshop''])
   \<and> fst (getLabelIdByName labelled ''Work'' (logged_in valid_token)) = Inr ''Label_2''
   \<and> labelCache (snd (getLabelIdByName labelled ''Work'' (logged_in valid_token)))
       = Some example_labels
   \<and> calls (snd (getLabelIdByName labelled ''Work'' (logged_in valid_token))) = [LabelsList]"
proof -
  have c: "labelCache cached_world = Some example_labels"
    by (simp add: cached_world_def)
  note a = getLabelIdByName_first_exact [OF getLabels_cached [OF c, of example_env], of "''Work''"]
  note b = getLabelIdByName_first_exact [OF getLabels_cached [OF c, of example_env], of "''Wor''"]
  note d = getLabelIdByName_first_exact [OF getLabels_labelled, of "''Work''"]
  have 1: "fst (getLabelIdByName example_env ''Work'' cached_world)
      = Inr (label_id (example_labels ! 1))"
    using a first_Work by blast
  have 2: "snd (getLabelIdByName example_env ''Work'' cached_world) = cached_world"
    using a by blast
  have 3: "fst (getLabelIdByName example_env ''Wor'' cached_world)
      = Inl (LabelNotFound ''Wor'' (map label_name example_labels))"
    using b no_Wor by blast
  have 4: "fst (getLabelIdByName labelled ''Work'' (logged_in valid_token))
      = Inr (label_id (example_labels ! 1))"
    using d first_Work by blast
  have 5: "snd (getLabelIdByName labelled ''Work'' (logged_in valid_token))
      = (logged_in valid_token)\<lparr>gmailClient := Some example_client, calls := [LabelsList],
                                labelCache := Some example_labels\<rparr>"
    using d by blast
  have n: "label_id (example_labels ! 1) = ''Label_2''"
    "map label_name example_labels = [''work'', ''Work'', ''Work'', ''Workshop'']"
    by (simp_all add: example_labels_def mk_label_def)
  show ?thesis using 1 2 3 4 5 n by simp
qed

section \<open>Verified properties: attachments\<close>

lemma validate_all_ok:
  "\<forall>p \<in> set ps. attachment_ok w p \<Longrightarrow> validate_all w ps t = Inr (t + total_size w ps)"
  by (induction ps arbitrary: t)
     (auto simp: attachment_ok_def total_size_def validateAttachment_def split: option.splits)

lemma validate_all_first_bad:
  assumes "\<forall>x \<in> set xs. attachment_ok w x" and "\<not> attachment_ok w p"
  shows "validate_all w (xs @ p # ys) t =
     (case files w p of
        None \<Rightarrow> Inl (AttachmentNotFound p)
      | Some f \<Rightarrow> Inl (AttachmentTooLarge p (fsize f)))"
  using assms
  by (induction xs arbitrary: t)
     (auto simp: attachment_ok_def validateAttachment_def split: option.splits)

lemma build_messageConfig_attachments:
  assumes "attachments opts = Some ps" and "ps \<noteq> []"
  shows "build_messageConfig w opts =
     (case validate_all w ps 0 of
        Inl err \<Rightarrow> Inl err
      | Inr totalSize \<Rightarrow>
          if totalSize > MAX_MESSAGE_SIZE then Inl (MessageTooLarge totalSize)
          else Inr \<lparr>mc_from = (case from_addr opts of None \<Rightarrow> ''me'' | Some f \<Rightarrow> f),
                    mc_to = to opts, mc_subject = subject opts,
                    mc_headers = (case opt_headers opts of None \<Rightarrow> [] | Some h \<Rightarrow> h),
                    mc_cc = addr_field (cc opts), mc_bcc = addr_field (bcc opts),
                    mc_text = (if truthy (bodyTxt opts) then bodyTxt opts else None),
                    mc_html = (if truthy (bodyHtml opts) then bodyHtml opts else None),
                    mc_attachments = Some ps\<rparr>)"
  using assms
  by (cases ps) (simp_all add: build_messageConfig_def Let_def split: sum.splits)

lemma buildMimeMessage_invalid:
  assumes "build_messageConfig w opts = Inl err"
  shows "buildMimeMessage e w opts = Inl err"
  using assms by (simp add: buildMimeMessage_def)

lemma disk_files:
  "files disk ''/tmp/a.bin'' = Some (sized 20971520)"
  "files disk ''/tmp/b.bin'' = Some (sized 20971520)"
  "files disk ''/tmp/exact.bin'' = Some (sized 36700160)"
  "files disk ''/tmp/huge.bin'' = Some (sized 36700161)"
  "files disk ''/tmp/missing.bin'' = None"
  by (simp_all add: disk_def)

lemma disk_ok:
  "attachment_ok disk ''/tmp/a.bin''" "attachment_ok disk ''/tmp/b.bin''"
  "attachment_ok disk ''/tmp/exact.bin''"
  by (simp_all add: attachment_ok_def disk_files sized_def MAX_MESSAGE_SIZE_def)

lemma attachments_send_request: "attachments (send_request ps) = Some ps"
  by (simp add: send_request_def)

text \<open>
  Claim C3. For the attachment list \<open>ps\<close> of a request: the first path of the list that
  fails its own check decides the outcome, \<open>AttachmentNotFound\<close> when the file does not
  exist and \<open>AttachmentTooLarge\<close> when its size is strictly greater than 35 * 1024 * 1024
  bytes; when some path fails, the outcome is never \<open>MessageTooLarge\<close>; when every path
  passes, the sum of the sizes is compared with the same limit, \<open>MessageTooLarge\<close> being
  raised when the sum is strictly greater and the message configuration being built
  otherwise; and whether and how this check fails does not depend on the bodies.
\<close>

theorem attachments_validated_in_order:
  assumes "attachments opts = Some ps"
  shows "(\<forall>xs p ys. ps = xs @ p # ys \<and> (\<forall>x \<in> set xs. attachment_ok w x) \<and> files w p = None \<longrightarrow>
            buildMimeMessage e w opts = Inl (AttachmentNotFound p))
       \<and> (\<forall>xs p ys f. ps = xs @ p # ys \<and> (\<forall>x \<in> set xs. attachment_ok w x)
              \<and> files w p = Some f \<and> fsize f > 35 * 1024 * 1024 \<longrightarrow>
            buildMimeMessage e w opts = Inl (AttachmentTooLarge p (fsize f)))
       \<and> ((\<exists>p \<in> set ps. \<not> attachment_ok w p) \<longrightarrow>
            (\<forall>n. buildMimeMessage e w opts \<noteq> Inl (MessageTooLarge n)))
       \<and> ((\<forall>p \<in> set ps. attachment_ok w p) \<and> total_size w ps > 35 * 1024 * 1024 \<longrightarrow>
            buildMimeMessage e w opts = Inl (MessageTooLarge (total_size w ps)))
       \<and> ((\<forall>p \<in> set ps. attachment_ok w p) \<and> total_size w ps \<le> 35 * 1024 * 1024 \<longrightarrow>
            (\<exists>cfg. build_messageConfig w opts = Inr cfg))
       \<and> (\<forall>b h err. build_messageConfig w (opts\<lparr>bodyTxt := b, bodyHtml := h\<rparr>) = Inl err
                       \<longleftrightarrow> build_messageConfig w opts = Inl err)"
proof (intro conjI allI impI)
  fix xs p ys
  assume a: "ps = xs @ p # ys \<and> (\<forall>x \<in> set xs. attachment_ok w x) \<and> files w p = None"
  then have "\<not> attachment_ok w p" by (simp add: attachment_ok_def)
  with a have "validate_all w ps 0 = Inl (AttachmentNotFound p)"
    by (simp add: validate_all_first_bad)
  moreover from a have "ps \<noteq> []" by auto
  ultimately have "build_messageConfig w opts = Inl (AttachmentNotFound p)"
    by (simp add: build_messageConfig_attachments [OF assms])
  then show "buildMimeMessage e w opts = Inl (AttachmentNotFound p)"
    by (rule buildMimeMessage_invalid)
next
  fix xs p ys f
  assume a: "ps = xs @ p # ys \<and> (\<forall>x \<in> set xs. attachment_ok w x)
              \<and> files w p = Some f \<and> fsize f > 35 * 1024 * 1024"
  then have "\<not> attachment_ok w p" by (simp add: attachment_ok_def MAX_MESSAGE_SIZE_def)
  with a have "validate_all w ps 0 = Inl (AttachmentTooLarge p (fsize f))"
    by (simp add: validate_all_first_bad)
  moreover from a have "ps \<noteq> []" by auto
  ultimately have "build_messageConfig w opts = Inl (AttachmentTooLarge p (fsize f))"
    by (simp add: build_messageConfig_attachments [OF assms])
  then show "buildMimeMessage e w opts = Inl (AttachmentTooLarge p (fsize f))"
    by (rule buildMimeMessage_invalid)
next
  fix n
  assume "\<exists>p \<in> set ps. \<not> attachment_ok w p"
  then obtain xs p ys where s: "ps = xs @ p # ys" "\<not> attachment_ok w p"
    "\<forall>x \<in> set xs. attachment_ok w x"
    using split_list_first_prop [of ps "\<lambda>p. \<not> attachment_ok w p"] by auto
  then have "validate_all w ps 0 =
     (case files w p of
        None \<Rightarrow> Inl (AttachmentNotFound p)
      | Some f \<Rightarrow> Inl (AttachmentTooLarge p (fsize f)))"
    by (simp add: validate_all_first_bad)
  moreover from s have "ps \<noteq> []" by auto
  ultimately have "build_messageConfig w opts =
     (case files w p of
        None \<Rightarrow> Inl (AttachmentNotFound p)
      | Some f \<Rightarrow> Inl (AttachmentTooLarge p (fsize f)))"
    by (simp add: build_messageConfig_attachments [OF assms] split: option.splits)
  then show "buildMimeMessage e w opts \<noteq> Inl (MessageTooLarge n)"
    by (simp add: buildMimeMessage_def split: option.splits)
next
  assume a: "(\<forall>p \<in> set ps. attachment_ok w p) \<and> total_size w ps > 35 * 1024 * 1024"
  then have v: "validate_all w ps 0 = Inr (total_size w ps)" by (simp add: validate_all_ok)
  from a have "ps \<noteq> []" by (auto simp: total_size_def)
  with v a have "build_messageConfig w opts = Inl (MessageTooLarge (total_size w ps))"
    by (simp add: build_messageConfig_attachments [OF assms] MAX_MESSAGE_SIZE_def)
  then show "buildMimeMessage e w opts = Inl (MessageTooLarge (total_size w ps))"
    by (rule buildMimeMessage_invalid)
next
  assume a: "(\<forall>p \<in> set ps. attachment_ok w p) \<and> total_size w ps \<le> 35 * 1024 * 1024"
  then have v: "validate_all w ps 0 = Inr (total_size w ps)" by (simp add: validate_all_ok)
  show "\<exists>cfg. build_messageConfig w opts = Inr cfg"
  proof (cases "ps = []")
    case True
    with assms show ?thesis by (simp add: build_messageConfig_def)
  next
    case False
    with v a show ?thesis
      by (simp add: build_messageConfig_attachments [OF assms] MAX_MESSAGE_SIZE_def)
  qed
next
  fix b h err
  have "attachments (opts\<lparr>bodyTxt := b, bodyHtml := h\<rparr>) = Some ps" using assms by simp
  then show "build_messageConfig w (opts\<lparr>bodyTxt := b, bodyHtml := h\<rparr>) = Inl err
     \<longleftrightarrow> build_messageConfig w opts = Inl err"
    using assms
    by (cases ps) (simp_all add: build_messageConfig_def Let_def split: sum.splits)
qed

theorem attachments_validated_in_order_witness:
  "buildMimeMessage example_env disk
      (send_request [''/tmp/a.bin'', ''/tmp/missing.bin'', ''/tmp/huge.bin''])
     = Inl (AttachmentNotFound ''/tmp/missing.bin'')
   \<and> buildMimeMessage example_env disk
      (send_request [''/tmp/a.bin'', ''/tmp/huge.bin'', ''/tmp/missing.bin''])
     = Inl (AttachmentTooLarge ''/tmp/huge.bin'' 36700161)
   \<and> buildMimeMessage example_env disk (send_request [''/tmp/a.bin'', ''/tmp/b.bin''])
     = Inl (MessageTooLarge 41943040)
   \<and> (\<exists>cfg. build_messageConfig disk (send_request [''/tmp/exact.bin'']) = Inr cfg)
   \<and> buildMimeMessage example_env disk (send_request [''/tmp/a.bin'', ''/tmp/huge.bin''])
     \<noteq> Inl (MessageTooLarge 57671681)"
proof -
  note a = attachments_validated_in_order [OF attachments_send_request, of _ disk example_env]
  have 1: "buildMimeMessage example_env disk
      (send_request [''/tmp/a.bin'', ''/tmp/missing.bin'', ''/tmp/huge.bin''])
     = Inl (AttachmentNotFound ''/tmp/missing.bin'')"
  proof -
    have "[''/tmp/a.bin'', ''/tmp/missing.bin'', ''/tmp/huge.bin'']
        = [''/tmp/a.bin''] @ ''/tmp/missing.bin'' # [''/tmp/huge.bin'']
      \<and> (\<forall>x \<in> set [''/tmp/a.bin'']. attachment_ok disk x)
      \<and> files disk ''/tmp/missing.bin'' = None"
      by (simp add: disk_ok disk_files)
    with a show ?thesis by blast
  qed
  have 2: "buildMimeMessage example_env disk
      (send_request [''/tmp/a.bin'', ''/tmp/huge.bin'', ''/tmp/missing.bin''])
     = Inl (AttachmentTooLarge ''/tmp/huge.bin'' (fsize (sized 36700161)))"
  proof -
    have "[''/tmp/a.bin'', ''/tmp/huge.bin'', ''/tmp/missing.bin'']
        = [''/tmp/a.bin''] @ ''/tmp/huge.bin'' # [''/tmp/missing.bin'']
      \<and> (\<forall>x \<in> set [''/tmp/a.bin'']. attachment_ok disk x)
      \<and> files disk ''/tmp/huge.bin'' = Some (sized 36700161)
      \<and> fsize (sized 36700161) > 35 * 1024 * 1024"
      by (simp add: disk_ok disk_files sized_def)
    with a show ?thesis by blast
  qed
  have t: "total_size disk [''/tmp/a.bin'', ''/tmp/b.bin''] = 41943040"
    "total_size disk [''/tmp/exact.bin''] = 36700160"
    by (simp_all add: total_size_def disk_files sized_def)
  have 3: "buildMimeMessage example_env disk (send_request [''/tmp/a.bin'', ''/tmp/b.bin''])
     = Inl (MessageTooLarge (total_size disk [''/tmp/a.bin'', ''/tmp/b.bin'']))"
  proof -
    have "(\<forall>p \<in> set [''/tmp/a.bin'', ''/tmp/b.bin'']. attachment_ok disk p)
      \<and> total_size disk [''/tmp/a.bin'', ''/tmp/b.bin''] > 35 * 1024 * 1024"
      by (simp add: disk_ok t)
    with a show ?thesis by blast
  qed
  have 4: "\<exists>cfg. build_messageConfig disk (send_request [''/tmp/exact.bin'']) = Inr cfg"
  proof -
    have "(\<forall>p \<in> set [''/tmp/exact.bin'']. attachment_ok disk p)
      \<and> total_size disk [''/tmp/exact.bin''] \<le> 35 * 1024 * 1024"
      by (simp add: disk_ok t)
    with a show ?thesis by blast
  qed
  have 5: "buildMimeMessage example_env disk (send_request [''/tmp/a.bin'', ''/tmp/huge.bin''])
     \<noteq> Inl (MessageTooLarge 57671681)"
  proof -
    have "\<exists>p \<in> set [''/tmp/a.bin'', ''/tmp/huge.bin'']. \<not> attachment_ok disk p"
      by (simp add: attachment_ok_def disk_files sized_def MAX_MESSAGE_SIZE_def)
    with a show ?thesis by blast
  qed
  show ?thesis using 1 2 3 4 5 by (simp add: t sized_def)
qed

section \<open>Verified properties: body extraction\<close>

lemma extractBody_fold:
  "(\<forall>q \<in> set (preorder p). has_body_if_text q) \<Longrightarrow>
     extractBody p acc = Inr (fold visit (preorder p) acc)"
  "(\<forall>q \<in> set (preorder_list ps). has_body_if_text q) \<Longrightarrow>
     forEach_extractBody ps acc = Inr (fold visit (preorder_list ps) acc)"
proof (induction p acc and ps acc rule: extractBody_forEach_extractBody.induct)
  case (1 hs mt b ps acc)
  from "1.prems" have hb: "has_body_if_text (Part hs mt b ps)" by simp
  have v: "visit (Part hs mt b ps) acc =
      (if mt = ''text/plain'' \<and> truthy (case b of None \<Rightarrow> None | Some x \<Rightarrow> x)
       then acc\<lparr>textBody := decodeBase64Url (case b of None \<Rightarrow> None | Some x \<Rightarrow> x)\<rparr>
       else if mt = ''text/html'' \<and> truthy (case b of None \<Rightarrow> None | Some x \<Rightarrow> x)
       then acc\<lparr>htmlBody := decodeBase64Url (case b of None \<Rightarrow> None | Some x \<Rightarrow> x)\<rparr>
       else acc)"
    by (simp add: visit_def is_plain_def is_html_def data_of_def)
  have g: "\<not> ((mt = ''text/plain'' \<or> mt = ''text/html'') \<and> b = None)"
    using hb by (auto simp: has_body_if_text_def)
  show ?case
  proof (cases ps)
    case None
    with g v show ?thesis by (simp add: Let_def)
  next
    case (Some qs)
    with "1.prems" have "\<forall>q \<in> set (preorder_list qs). has_body_if_text q" by simp
    with "1.IH" [OF g refl refl Some] Some g v show ?thesis
      by (simp add: Let_def)
  qed
next
  case (2 acc)
  then show ?case by simp
next
  case (3 p qs acc)
  from "3.prems" have a: "\<forall>q \<in> set (preorder p). has_body_if_text q"
    and b: "\<forall>q \<in> set (preorder_list qs). has_body_if_text q" by simp_all
  from "3.IH"(1) [OF a] have e: "extractBody p acc = Inr (fold visit (preorder p) acc)" .
  from "3.IH"(2) [OF e b] e show ?case by simp
qed

lemma is_plain_not_html: "is_plain p \<Longrightarrow> \<not> is_html p"
  by (auto simp: is_plain_def is_html_def)

lemma textBody_fold:
  "textBody (fold visit xs acc) =
     (if filter is_plain xs = [] then textBody acc
      else decodeBase64Url (data_of (last (filter is_plain xs))))"
proof (induction xs rule: rev_induct)
  case Nil
  then show ?case by simp
next
  case (snoc x xs)
  show ?case
  proof (cases "is_plain x")
    case True
    then show ?thesis by (simp add: visit_def)
  next
    case False
    with snoc show ?thesis by (simp add: visit_def)
  qed
qed

lemma htmlBody_fold:
  "htmlBody (fold visit xs acc) =
     (if filter is_html xs = [] then htmlBody acc
      else decodeBase64Url (data_of (last (filter is_html xs))))"
proof (induction xs rule: rev_induct)
  case Nil
  then show ?case by simp
next
  case (snoc x xs)
  show ?case
  proof (cases "is_html x")
    case True
    then have "\<not> is_plain x" using is_plain_not_html by blast
    with True show ?thesis by (simp add: visit_def)
  next
    case False
    with snoc show ?thesis by (simp add: visit_def)
  qed
qed

lemma getMessageBody_fold:
  assumes "\<forall>q \<in> set (tl (preorder (payload m))). has_body_if_text q"
  shows "getMessageBody m = Inr (fold visit (preorder (payload m)) \<lparr>textBody = [], htmlBody = []\<rparr>)"
proof (cases "payload m")
  case (Part hs mt b ps)
  have v: "visit (Part hs mt b ps) \<lparr>textBody = [], htmlBody = []\<rparr> =
      (if truthy (case b of None \<Rightarrow> None | Some x \<Rightarrow> x) then
         (if mt = ''text/plain''
          then \<lparr>textBody = [], htmlBody = []\<rparr>
                 \<lparr>textBody := decodeBase64Url (case b of None \<Rightarrow> None | Some x \<Rightarrow> x)\<rparr>
          else if mt = ''text/html''
          then \<lparr>textBody = [], htmlBody = []\<rparr>
                 \<lparr>htmlBody := decodeBase64Url (case b of None \<Rightarrow> None | Some x \<Rightarrow> x)\<rparr>
          else \<lparr>textBody = [], htmlBody = []\<rparr>)
       else \<lparr>textBody = [], htmlBody = []\<rparr>)"
    by (simp add: visit_def is_plain_def is_html_def data_of_def)
  show ?thesis
  proof (cases ps)
    case None
    with Part v show ?thesis by (simp add: getMessageBody_def Let_def)
  next
    case (Some qs)
    with assms Part have "\<forall>q \<in> set (preorder_list qs). has_body_if_text q" by simp
    from extractBody_fold(2) [OF this] Some Part v show ?thesis
      by (simp add: getMessageBody_def Let_def)
  qed
qed

lemma extractBody_bad:
  "(\<exists>q \<in> set (preorder p). \<not> has_body_if_text q) \<Longrightarrow> extractBody p acc = Inl TypeError"
  "(\<exists>q \<in> set (preorder_list ps). \<not> has_body_if_text q) \<Longrightarrow>
     forEach_extractBody ps acc = Inl TypeError"
proof (induction p acc and ps acc rule: extractBody_forEach_extractBody.induct)
  case (1 hs mt b ps acc)
  show ?case
  proof (cases "has_body_if_text (Part hs mt b ps)")
    case False
    then show ?thesis by (auto simp: has_body_if_text_def)
  next
    case True
    then have g: "\<not> ((mt = ''text/plain'' \<or> mt = ''text/html'') \<and> b = None)"
      by (auto simp: has_body_if_text_def)
    from True "1.prems" obtain qs where qs: "ps = Some qs"
      and bad: "\<exists>q \<in> set (preorder_list qs). \<not> has_body_if_text q"
      by (cases ps) auto
    from "1.IH" [OF g refl refl qs bad] g qs show ?thesis by (simp add: Let_def)
  qed
next
  case (2 acc)
  then show ?case by simp
next
  case (3 p qs acc)
  show ?case
  proof (cases "\<exists>q \<in> set (preorder p). \<not> has_body_if_text q")
    case True
    from "3.IH"(1) [OF True] show ?thesis by simp
  next
    case False
    then have e: "extractBody p acc = Inr (fold visit (preorder p) acc)"
      by (simp add: extractBody_fold(1))
    from False "3.prems" have "\<exists>q \<in> set (preorder_list qs). \<not> has_body_if_text q" by auto
    from "3.IH"(2) [OF e this] e show ?thesis by simp
  qed
qed

lemma getMessageBody_bad:
  assumes "\<exists>q \<in> set (tl (preorder (payload m))). \<not> has_body_if_text q"
  shows "getMessageBody m = Inl TypeError"
proof (cases "payload m")
  case (Part hs mt b ps)
  with assms obtain qs where qs: "ps = Some qs"
    and bad: "\<exists>q \<in> set (preorder_list qs). \<not> has_body_if_text q"
    by (cases ps) auto
  from extractBody_bad(2) [OF bad] Part qs show ?thesis
    by (simp add: getMessageBody_def Let_def)
qed

lemma bodiless_not_wf:
  "\<not> (\<forall>q \<in> set (tl (preorder (payload bodiless_message))). has_body_if_text q)"
  by (simp add: bodiless_message_def has_body_if_text_def)

lemma nested_wf: "\<forall>q \<in> set (tl (preorder (payload nested_message))). has_body_if_text q"
  by (simp add: nested_message_def has_body_if_text_def)

lemma simple_wf: "\<forall>q \<in> set (tl (preorder (payload simple_message))). has_body_if_text q"
  by (simp add: simple_message_def has_body_if_text_def)

lemma nested_last:
  "last_of is_plain (preorder (payload nested_message)) = ''second''"
  "last_of is_html (preorder (payload nested_message)) = ''<p>a</p>''"
  unfolding nested_message_def by code_simp+

lemma simple_last:
  "last_of is_plain (preorder (payload simple_message)) = []"
  "last_of is_html (preorder (payload simple_message)) = ''<b>hi</b>''"
  unfolding simple_message_def by code_simp+

text \<open>
  Claim C4. For every payload whose parts below the top, when of type text/plain or
  text/html, have a body object (as the payloads of the provider do), \<open>getMessageBody\<close>
  returns, as text, the decoded data of the last part in depth-first order (the top-level
  payload first, each part before its children) whose type is exactly text/plain and
  which carries inline data, and as HTML the same for text/html; each is empty when
  there is no such part. Nothing is concatenated. A payload with a text part that has no
  body object makes the unguarded read of its data throw.
\<close>

theorem getMessageBody_last_wins:
  "getMessageBody m =
     (if \<forall>q \<in> set (tl (preorder (payload m))). has_body_if_text q
      then Inr \<lparr>textBody = last_of is_plain (preorder (payload m)),
                htmlBody = last_of is_html (preorder (payload m))\<rparr>
      else Inl TypeError)"
proof (cases "\<forall>q \<in> set (tl (preorder (payload m))). has_body_if_text q")
  case True
  let ?r = "fold visit (preorder (payload m)) \<lparr>textBody = [], htmlBody = []\<rparr>"
  have "textBody ?r = last_of is_plain (preorder (payload m))"
    by (simp add: textBody_fold last_of_def)
  moreover have "htmlBody ?r = last_of is_html (preorder (payload m))"
    by (simp add: htmlBody_fold last_of_def)
  ultimately have "?r = \<lparr>textBody = last_of is_plain (preorder (payload m)),
          htmlBody = last_of is_html (preorder (payload m))\<rparr>"
    by (cases ?r) simp
  with getMessageBody_fold [OF True] True show ?thesis by simp
next
  case False
  then have "\<exists>q \<in> set (tl (preorder (payload m))). \<not> has_body_if_text q" by blast
  from getMessageBody_bad [OF this] False show ?thesis by simp
qed

theorem getMessageBody_last_wins_witness:
  "getMessageBody nested_message = Inr \<lparr>textBody = ''second'', htmlBody = ''<p>a</p>''\<rparr>
   \<and> getMessageBody simple_message = Inr \<lparr>textBody = [], htmlBody = ''<b>hi</b>''\<rparr>
   \<and> getMessageBody bodiless_message = Inl TypeError"
  using getMessageBody_last_wins [of nested_message] getMessageBody_last_wins [of simple_message]
    getMessageBody_last_wins [of bodiless_message] nested_wf simple_wf bodiless_not_wf
  by (simp add: nested_last simple_last)

section \<open>Verified properties: transport encoding\<close>































text \<open>The codec on known vectors.\<close>

lemma base64_known_vectors:
  "base64_encode ''hello'' = ''aGVsbG8=''"
  "encodeMessage ''<p>a</p>'' = ''PHA-YTwvcD4''"
  "encodeMessage [CHR 0xFB, CHR 0xFF] = ''-_8''"
  "decodeBase64Url (Some ''-_8'') = [CHR 0xFB, CHR 0xFF]"
  by code_simp+





end
